theory Spec2Isabelle
  imports Complex_Main
begin

section \<open>Data model\<close>

text \<open>
  The journal client keeps a JSON index of entries in one \<open>localStorage\<close> slot and the media
  payloads in an IndexedDB object store. The types below follow the TypeScript declarations
  shared by \<open>page.tsx\<close>, \<open>EntryClient.tsx\<close> and \<open>VideoThumb.tsx\<close>. An optional field
  (\<open>thumbUri?: string\<close>) is an \<open>option\<close>; \<open>undefined\<close> is \<open>None\<close>.
\<close>

record TextBlock =
  block_id :: string
  block_createdAt :: string
  content :: string

datatype mediaType = Photo | Video

record Entry =
  entry_id :: string
  createdAt :: string
  mediaType :: mediaType
  mediaUri :: string
  thumbUri :: "string option"
  textBlocks :: "TextBlock list"

record blob =
  blob_type :: string
  blob_bytes :: "nat list"

text \<open>Exceptions of the platform: a \<open>DOMException\<close> carries its \<open>name\<close>.\<close>

datatype exn = DOMException string | SyntaxError | OtherError string

type_synonym 'a result = "exn + 'a"

text \<open>What \<open>JSON.parse\<close> gives for a text that is JSON: an array (read as \<open>Entry[]\<close>, the
  cast of the source) or any other JSON value.\<close>

datatype parsed = JsonArray "Entry list" | JsonOther

text \<open>Effects the program has on its surroundings, in the order they happen.\<close>

datatype event =
    SetItemOk string
  | SetItemThrew string exn
  | Dispatched string
  | Warned string
  | PutMedia string
  | CreatedObjectURL string
  | RevokedObjectURL string
  | Navigated string

text \<open>
  The browser is a parameter. \<open>JSON_parse\<close> is \<open>None\<close> where \<open>JSON.parse\<close> throws;
  \<open>setItem_fault n v\<close> is the exception of the \<open>n\<close>-th call of \<open>localStorage.setItem\<close>
  (counted from 0) with value \<open>v\<close>, if it throws; \<open>idb_get_fault\<close> and \<open>idb_put_fault\<close> are the
  errors with which opening the database or the transaction rejects; \<open>fetch_blob\<close> is
  \<open>fetch(dataUrl).blob()\<close>; \<open>image_load\<close> gives the natural size of a decoded image, \<open>None\<close>
  where \<open>onerror\<close> fires; \<open>canvas_context\<close> tells whether \<open>getContext("2d")\<close> is non-null;
  \<open>encode_jpeg w h src\<close> is the data URL \<open>toDataURL\<close> gives for a \<open>w\<close> by \<open>h\<close> canvas on
  which \<open>src\<close> was drawn.
\<close>

record platform =
  JSON_parse :: "string \<Rightarrow> parsed option"
  JSON_stringify :: "Entry list \<Rightarrow> string"
  getItem_fault :: "exn option"
  setItem_fault :: "nat \<Rightarrow> string \<Rightarrow> exn option"
  idb_get_fault :: "string \<Rightarrow> exn option"
  idb_put_fault :: "string \<Rightarrow> exn option"
  fetch_blob :: "string \<Rightarrow> exn + blob"
  image_load :: "string \<Rightarrow> (nat \<times> nat) option"
  canvas_context :: bool
  encode_jpeg :: "nat \<Rightarrow> nat \<Rightarrow> string \<Rightarrow> string"

text \<open>The mutable surroundings: the storage slot under \<open>KEY\<close>, the object store \<open>media\<close>,
  the number of object URLs minted so far, and the trace of effects.\<close>

record world =
  slot :: "string option"
  media :: "string \<rightharpoonup> blob"
  minted :: nat
  trace :: "event list"

definition EVT :: string where
  "EVT = ''ponto-timeline-updated''"

definition IDB_PREFIX :: string where
  "IDB_PREFIX = ''idb:''"

section \<open>JavaScript primitives\<close>

definition startsWith :: "string \<Rightarrow> string \<Rightarrow> bool" where
  "startsWith s p = (take (length p) s = p)"

text \<open>Truthiness of a \<open>string | undefined\<close>: \<open>undefined\<close> and the empty string are falsy.\<close>

definition truthy :: "string option \<Rightarrow> bool" where
  "truthy t = (case t of None \<Rightarrow> False | Some s \<Rightarrow> s \<noteq> [])"

text \<open>White space and line terminators that \<open>String.prototype.trim\<close> strips, among the
  characters a \<open>char\<close> can hold: TAB, LF, VT, FF, CR, SPACE and NBSP.\<close>

definition is_ws :: "char \<Rightarrow> bool" where
  "is_ws c = (of_char c \<in> {9, 10, 11, 12, 13, 32, 160 :: nat})"

definition trim :: "string \<Rightarrow> string" where
  "trim s = rev (dropWhile is_ws (rev (dropWhile is_ws s)))"

fun findIndex :: "('a \<Rightarrow> bool) \<Rightarrow> 'a list \<Rightarrow> nat option" where
  "findIndex P [] = None"
| "findIndex P (x # xs) =
     (if P x then Some 0 else map_option Suc (findIndex P xs))"

section \<open>Timeline index store\<close>

definition getItem :: "platform \<Rightarrow> world \<Rightarrow> (string option) result" where
  "getItem p w = (case getItem_fault p of Some e \<Rightarrow> Inl e | None \<Rightarrow> Inr (slot w))"

definition is_setItem :: "event \<Rightarrow> bool" where
  "is_setItem ev = (case ev of SetItemOk _ \<Rightarrow> True | SetItemThrew _ _ \<Rightarrow> True | _ \<Rightarrow> False)"

definition attempts :: "world \<Rightarrow> nat" where
  "attempts w = length (filter is_setItem (trace w))"

definition setItem :: "platform \<Rightarrow> string \<Rightarrow> world \<Rightarrow> unit result \<times> world" where
  "setItem p v w =
     (case setItem_fault p (attempts w) v of
        Some e \<Rightarrow> (Inl e, w\<lparr>trace := trace w @ [SetItemThrew v e]\<rparr>)
      | None \<Rightarrow> (Inr (), w\<lparr>slot := Some v, trace := trace w @ [SetItemOk v]\<rparr>))"

definition dispatchEvent :: "string \<Rightarrow> world \<Rightarrow> world" where
  "dispatchEvent name w = w\<lparr>trace := trace w @ [Dispatched name]\<rparr>"



definition warn :: "string \<Rightarrow> world \<Rightarrow> world" where
  "warn msg w = w\<lparr>trace := trace w @ [Warned msg]\<rparr>"

text \<open>The body of the \<open>try\<close> block of \<open>readTimeline\<close>, then the function with its \<open>catch\<close>.\<close>

definition readTimeline_try :: "platform \<Rightarrow> world \<Rightarrow> (Entry list) result" where
  "readTimeline_try p w =
     (case getItem p w of
        Inl e \<Rightarrow> Inl e
      | Inr raw \<Rightarrow>
          (case raw of
             None \<Rightarrow> Inr []
           | Some text \<Rightarrow>
               if text = [] then Inr []
               else (case JSON_parse p text of
                       None \<Rightarrow> Inl SyntaxError
                     | Some (JsonArray list) \<Rightarrow> Inr list
                     | Some JsonOther \<Rightarrow> Inr [])))"

definition readTimeline :: "platform \<Rightarrow> world \<Rightarrow> Entry list" where
  "readTimeline p w = (case readTimeline_try p w of Inl _ \<Rightarrow> [] | Inr list \<Rightarrow> list)"

section \<open>Blob store (\<open>mediaStore\<close>)\<close>

definition isIdbUri :: "string \<Rightarrow> bool" where
  "isIdbUri uri = startsWith uri IDB_PREFIX"

definition toIdbUri :: "string \<Rightarrow> string" where
  "toIdbUri key = IDB_PREFIX @ key"

text \<open>\<open>putMedia\<close> rejects when the database or the transaction fails, and stores the payload
  under the key otherwise.\<close>

definition putMedia :: "platform \<Rightarrow> string \<Rightarrow> blob \<Rightarrow> world \<Rightarrow> unit result \<times> world" where
  "putMedia p key b w =
     (case idb_put_fault p key of
        Some e \<Rightarrow> (Inl e, w)
      | None \<Rightarrow> (Inr (), w\<lparr>media := (media w)(key \<mapsto> b), trace := trace w @ [PutMedia key]\<rparr>))"

text \<open>\<open>getMedia\<close>: the request's result is \<open>undefined\<close> for a key that is not stored, and
  \<open>?? null\<close> turns it into \<open>null\<close> (\<open>None\<close>).\<close>

definition getMedia :: "platform \<Rightarrow> string \<Rightarrow> world \<Rightarrow> (blob option) result" where
  "getMedia p key w =
     (case idb_get_fault p key of
        Some e \<Rightarrow> Inl e
      | None \<Rightarrow> Inr (media w key))"

definition dataUrlToBlob :: "platform \<Rightarrow> string \<Rightarrow> blob result" where
  "dataUrlToBlob p dataUrl = fetch_blob p dataUrl"

section \<open>Capture page: photo thumbnail, overflow migration, save\<close>

text \<open>\<open>Math.round(x / y)\<close> for natural \<open>x\<close> and positive \<open>y\<close>, computed exactly.\<close>

definition round_div :: "nat \<Rightarrow> nat \<Rightarrow> nat" where
  "round_div x y = (2 * x + y) div (2 * y)"

text \<open>
  The thumbnail size of \<open>makePhotoThumbFromDataUrl\<close>:
  \<open>scale = Math.min(1, 720 / width, 720 / height)\<close>, then
  \<open>Math.max(1, Math.round(width * scale))\<close> for each side. A side of 0 gives the ratio
  \<open>Infinity\<close>, which \<open>Math.min\<close> ignores. The scale is below 1 exactly when the longer side
  exceeds 720, and is then \<open>720 / longer\<close>. The quotient and the products are taken
  exactly here, where the code rounds each to a double: on a side whose exact value lies
  at a half (1056 by 363 gives 247.5) the code's result can be one pixel less than this one.
  Nothing below depends on the size.
\<close>

definition thumbSize :: "nat \<Rightarrow> nat \<Rightarrow> nat \<times> nat" where
  "thumbSize width height =
     (let longer = max width height in
      if longer \<le> 720 then (max 1 width, max 1 height)
      else (max 1 (round_div (width * 720) longer), max 1 (round_div (height * 720) longer)))"

definition makePhotoThumbFromDataUrl :: "platform \<Rightarrow> string \<Rightarrow> string option" where
  "makePhotoThumbFromDataUrl p dataUrl =
     (case image_load p dataUrl of
        None \<Rightarrow> None
      | Some (width, height) \<Rightarrow>
          (let (w, h) = thumbSize width height in
           if \<not> canvas_context p then None
           else Some (encode_jpeg p w h dataUrl)))"

definition isQuotaExceeded :: "exn \<Rightarrow> bool" where
  "isQuotaExceeded err =
     (case err of
        DOMException name \<Rightarrow> name = ''QuotaExceededError'' \<or> name = ''NS_ERROR_DOM_QUOTA_REACHED''
      | _ \<Rightarrow> False)"

text \<open>One iteration of the loop of \<open>migrateTimelineMedia\<close>: the entry pushed onto
  \<open>updated\<close>, and the world after it. Any exception inside the \<open>try\<close> keeps the original
  entry.\<close>

definition migrateEntry :: "platform \<Rightarrow> Entry \<Rightarrow> world \<Rightarrow> Entry \<times> world" where
  "migrateEntry p entry w =
     (if startsWith (mediaUri entry) ''data:'' then
        (case dataUrlToBlob p (mediaUri entry) of
           Inl _ \<Rightarrow> (entry, w)
         | Inr b \<Rightarrow>
             (let thumb =
                (if \<not> truthy (thumbUri entry) \<and> mediaType entry = Photo
                 then makePhotoThumbFromDataUrl p (mediaUri entry)
                 else thumbUri entry)
              in case putMedia p (entry_id entry) b w of
                   (Inl _, w') \<Rightarrow> (entry, w')
                 | (Inr _, w') \<Rightarrow>
                     (entry\<lparr>mediaUri := toIdbUri (entry_id entry), thumbUri := thumb\<rparr>, w')))
      else (entry, w))"

fun migrateTimelineMedia :: "platform \<Rightarrow> Entry list \<Rightarrow> world \<Rightarrow> Entry list \<times> world" where
  "migrateTimelineMedia p [] w = ([], w)"
| "migrateTimelineMedia p (entry # entries) w =
     (let (entry', w1) = migrateEntry p entry w;
          (updated, w2) = migrateTimelineMedia p entries w1
      in (entry' # updated, w2))"

text \<open>\<open>writeTimeline\<close> of the capture page.\<close>

definition writeTimeline :: "platform \<Rightarrow> Entry list \<Rightarrow> world \<Rightarrow> unit result \<times> world" where
  "writeTimeline p entries w =
     (case setItem p (JSON_stringify p entries) w of
        (Inr _, w1) \<Rightarrow> (Inr (), w1)
      | (Inl err, w1) \<Rightarrow>
          if \<not> isQuotaExceeded err then (Inl err, w1)
          else (let (migrated, w2) = migrateTimelineMedia p entries w1
                in setItem p (JSON_stringify p migrated) w2))"

text \<open>The captured media held by the capture page, and \<open>onSave\<close>. The time stamp and the two
  identifiers \<open>crypto.randomUUID()\<close> would give are arguments. The result carries the message
  set with \<open>setCaptureError\<close>, if any.\<close>




section \<open>Entry page: saving notes\<close>

text \<open>\<open>writeTimeline\<close> of \<open>EntryClient.tsx\<close>: an exception of \<open>setItem\<close> leaves before the
  event is dispatched.\<close>

definition EntryClient_writeTimeline ::
  "platform \<Rightarrow> Entry list \<Rightarrow> world \<Rightarrow> unit result \<times> world" where
  "EntryClient_writeTimeline p list w =
     (case setItem p (JSON_stringify p list) w of
        (Inl e, w1) \<Rightarrow> (Inl e, w1)
      | (Inr _, w1) \<Rightarrow> (Inr (), dispatchEvent EVT w1))"

text \<open>The \<open>textBlocks\<close> that \<open>onSaveNotes\<close> gives the entry \<open>e\<close> found in the index.\<close>

definition nextTextBlocks :: "Entry \<Rightarrow> string \<Rightarrow> string \<Rightarrow> string \<Rightarrow> TextBlock list" where
  "nextTextBlocks e content' now newId =
     (if content' \<noteq> [] then
        (case textBlocks e of
           b # _ \<Rightarrow> [b\<lparr>content := content'\<rparr>]
         | [] \<Rightarrow> [\<lparr> block_id = newId, block_createdAt = now, content = content' \<rparr>])
      else [])"

text \<open>\<open>onSaveNotes\<close>: the component's \<open>entry\<close> state and \<open>draft\<close> are arguments; the result
  is the new \<open>entry\<close> state and the world. \<open>Inl\<close> is the exception with which the returned
  promise rejects.\<close>

definition onSaveNotes ::
  "platform \<Rightarrow> Entry option \<Rightarrow> string \<Rightarrow> string \<Rightarrow> string \<Rightarrow> world
     \<Rightarrow> (Entry option) result \<times> world" where
  "onSaveNotes p entry draft now newId w =
     (case entry of
        None \<Rightarrow> (Inr entry, w)
      | Some cur \<Rightarrow>
          (let list = readTimeline p w in
           case findIndex (\<lambda>e. entry_id e = entry_id cur) list of
             None \<Rightarrow> (Inr entry, w)
           | Some idx \<Rightarrow>
               (let content' = trim draft;
                    nextEntry = (list ! idx)\<lparr>textBlocks :=
                                   nextTextBlocks (list ! idx) content' now newId\<rparr>;
                    next = list[idx := nextEntry]
                in case EntryClient_writeTimeline p next w of
                     (Inl e, w1) \<Rightarrow> (Inl e, w1)
                   | (Inr _, w1) \<Rightarrow> (Inr (Some nextEntry), w1))))"

section \<open>Video thumbnails: write-back\<close>

definition writeBackThumb_next :: "string \<Rightarrow> string \<Rightarrow> Entry list \<Rightarrow> Entry list" where
  "writeBackThumb_next entryId thumb list =
     map (\<lambda>e. if entry_id e = entryId then e\<lparr>thumbUri := Some thumb\<rparr> else e) list"

definition writeBackThumb :: "platform \<Rightarrow> string \<Rightarrow> string \<Rightarrow> world \<Rightarrow> unit result \<times> world" where
  "writeBackThumb p entryId thumb w =
     (let list = readTimeline p w;
          next = writeBackThumb_next entryId thumb list
      in case setItem p (JSON_stringify p next) w of
           (Inl e, w1) \<Rightarrow> (Inl e, w1)
         | (Inr _, w1) \<Rightarrow> (Inr (), dispatchEvent EVT w1))"

section \<open>Video thumbnails: the frame-capture pipeline\<close>

text \<open>
  \<open>makeVideoThumbFromUrl\<close> (\<open>VideoThumb.tsx\<close>) and \<open>makeVideoThumbnailFromUrl\<close>
  (\<open>page.tsx\<close>) build a promise that is resolved by \<open>finish\<close>, called from the listeners
  of a detached video element. The element and the timers drive the code, so the pipeline
  is a state machine over the signals that reach it: an event of the element, or the
  expiry of the timer that is pending.

  \<open>video.duration\<close> is a double. Whether the seek target
  \<open>Math.min(0.2, duration / 10)\<close> is positive decides the path taken: it is for a finite
  positive duration, unless \<open>duration / 10\<close> underflows to 0, which it does exactly for the
  durations up to 5 times the smallest positive double (the quotient is then at most half of
  that double, and rounds to 0). The value of a positive target is taken over the rationals.
\<close>

datatype duration = NaN | Infinite | Seconds rat

record video =
  v_duration :: duration
  videoWidth :: nat
  videoHeight :: nat
  create_fault :: bool
  draw_fault :: bool

datatype video_event = EvError | EvLoadedMetadata | EvSeeked | EvLoadedData

datatype signal = Fires video_event | TimerExpires

datatype phase =
    AwaitingMetadata
  | WaitingFor video_event nat
  | Settling nat
  | Returned

text \<open>\<open>promise\<close> is \<open>None\<close> while the promise is pending and \<open>Some r\<close> once it is resolved
  with \<open>r\<close>; \<open>finished\<close> is the flag \<open>done\<close> (\<open>finished\<close> in \<open>page.tsx\<close>);
  \<open>error_listener\<close> tells whether the once-only \<open>error\<close> listener is still attached;
  \<open>currentTime\<close> is the seek requested; \<open>canvas\<close> is the size of the canvas created.\<close>

record pipeline =
  phase :: phase
  finished :: bool
  promise :: "string option option"
  error_listener :: bool
  currentTime :: "rat option"
  canvas :: "(nat \<times> nat) option"

definition finish :: "string option \<Rightarrow> pipeline \<Rightarrow> pipeline" where
  "finish thumb st =
     (if finished st then st else st\<lparr>finished := True, promise := Some thumb\<rparr>)"

text \<open>The executor up to \<open>video.load()\<close>; an exception there resolves with \<open>null\<close>.\<close>

definition thumb_start :: "video \<Rightarrow> pipeline" where
  "thumb_start v =
     (if create_fault v
      then \<lparr> phase = Returned, finished = False, promise = Some None,
             error_listener = False, currentTime = None, canvas = None \<rparr>
      else \<lparr> phase = AwaitingMetadata, finished = False, promise = None,
             error_listener = True, currentTime = None, canvas = None \<rparr>)"

definition seek_target :: "duration \<Rightarrow> rat" where
  "seek_target d =
     (case d of
        Seconds x \<Rightarrow>
          if x > 0 then (if x / 10 \<le> 1 / 2 ^ 1075 then 0 else min (2 / 10) (x / 10)) else 0
      | _ \<Rightarrow> 0)"

text \<open>The \<open>loadedmetadata\<close> handler up to its first \<open>await\<close>.\<close>

definition on_loadedmetadata :: "nat \<Rightarrow> video \<Rightarrow> pipeline \<Rightarrow> pipeline" where
  "on_loadedmetadata timeoutMs v st =
     (let t = seek_target (v_duration v) in
      if t > 0 then st\<lparr>currentTime := Some t, phase := WaitingFor EvSeeked timeoutMs\<rparr>
      else st\<lparr>phase := WaitingFor EvLoadedData timeoutMs\<rparr>)"

text \<open>The rest of the handler, from \<open>const w = video.videoWidth || 1280\<close> on. An exception of
  \<open>drawImage\<close> or \<open>toDataURL\<close> is caught and finishes with \<open>null\<close>.\<close>

definition capture_frame :: "platform \<Rightarrow> video \<Rightarrow> string \<Rightarrow> pipeline \<Rightarrow> pipeline" where
  "capture_frame p v url st =
     (let w = (if videoWidth v = 0 then 1280 else videoWidth v);
          h = (if videoHeight v = 0 then 720 else videoHeight v)
      in if w = 0 \<or> h = 0 then finish None (st\<lparr>phase := Returned\<rparr>)
         else if \<not> canvas_context p
           then finish None (st\<lparr>phase := Returned, canvas := Some (w, h)\<rparr>)
         else if draw_fault v
           then finish None (st\<lparr>phase := Returned, canvas := Some (w, h)\<rparr>)
         else finish (Some (encode_jpeg p w h url)) (st\<lparr>phase := Returned, canvas := Some (w, h)\<rparr>))"

text \<open>What follows a \<open>waitFor\<close>: \<open>VideoThumb.tsx\<close> waits 50 ms more (\<open>settle\<close>),
  \<open>page.tsx\<close> captures at once.\<close>

definition after_wait :: "bool \<Rightarrow> platform \<Rightarrow> video \<Rightarrow> string \<Rightarrow> pipeline \<Rightarrow> pipeline" where
  "after_wait settle p v url st =
     (if settle then st\<lparr>phase := Settling 50\<rparr> else capture_frame p v url st)"

text \<open>One signal. A signal nothing listens to, and a timer that is not pending, change
  nothing.\<close>

definition thumb_step ::
  "bool \<Rightarrow> nat \<Rightarrow> platform \<Rightarrow> video \<Rightarrow> string \<Rightarrow> pipeline \<Rightarrow> signal \<Rightarrow> pipeline" where
  "thumb_step settle timeoutMs p v url st sig =
     (case sig of
        Fires EvError \<Rightarrow>
          if error_listener st then finish None (st\<lparr>error_listener := False\<rparr>) else st
      | Fires ev \<Rightarrow>
          (case phase st of
             AwaitingMetadata \<Rightarrow>
               if ev = EvLoadedMetadata then on_loadedmetadata timeoutMs v st else st
           | WaitingFor awaited _ \<Rightarrow>
               if ev = awaited then after_wait settle p v url st else st
           | _ \<Rightarrow> st)
      | TimerExpires \<Rightarrow>
          (case phase st of
             WaitingFor _ _ \<Rightarrow> after_wait settle p v url st
           | Settling _ \<Rightarrow> capture_frame p v url st
           | _ \<Rightarrow> st))"

definition timer_pending :: "pipeline \<Rightarrow> bool" where
  "timer_pending st =
     (case phase st of WaitingFor _ _ \<Rightarrow> True | Settling _ \<Rightarrow> True | _ \<Rightarrow> False)"

definition thumb_run ::
  "bool \<Rightarrow> nat \<Rightarrow> platform \<Rightarrow> video \<Rightarrow> string \<Rightarrow> signal list \<Rightarrow> pipeline" where
  "thumb_run settle timeoutMs p v url sigs =
     foldl (thumb_step settle timeoutMs p v url) (thumb_start v) sigs"

text \<open>How many more steps the handler needs before it has returned.\<close>

definition remaining :: "bool \<Rightarrow> pipeline \<Rightarrow> nat" where
  "remaining settle st =
     (case phase st of
        AwaitingMetadata \<Rightarrow> (if settle then 3 else 2)
      | WaitingFor _ _ \<Rightarrow> (if settle then 2 else 1)
      | Settling _ \<Rightarrow> 1
      | Returned \<Rightarrow> 0)"

text \<open>What holds of every state of the pipeline: a handler that has finished or returned, and
  an error listener that has gone, have resolved the promise.\<close>

definition settled :: "pipeline \<Rightarrow> bool" where
  "settled st \<longleftrightarrow> (finished st \<longrightarrow> promise st \<noteq> None) \<and>
                 (phase st = Returned \<longrightarrow> promise st \<noteq> None) \<and>
                 (\<not> error_listener st \<longrightarrow> promise st \<noteq> None)"

text \<open>The size of the canvas the handler creates for the video \<open>v\<close>.\<close>

definition surface :: "video \<Rightarrow> nat \<times> nat" where
  "surface v =
     (if videoWidth v = 0 then 1280 else videoWidth v,
      if videoHeight v = 0 then 720 else videoHeight v)"

text \<open>Two more invariants: the canvas and a thumbnail resolved with belong to the surface;
  and, while no \<open>error\<close> event has fired, the promise is resolved by the handler's return
  alone.\<close>

definition framed :: "platform \<Rightarrow> video \<Rightarrow> string \<Rightarrow> pipeline \<Rightarrow> bool" where
  "framed p v url st \<longleftrightarrow>
     (canvas st = None \<or> canvas st = Some (surface v)) \<and>
     (\<forall>t. promise st = Some (Some t) \<longrightarrow>
        canvas st = Some (surface v) \<and>
        t = encode_jpeg p (fst (surface v)) (snd (surface v)) url \<and>
        canvas_context p \<and> \<not> draw_fault v)"

definition undisturbed :: "platform \<Rightarrow> video \<Rightarrow> string \<Rightarrow> pipeline \<Rightarrow> bool" where
  "undisturbed p v url st \<longleftrightarrow>
     (phase st \<noteq> Returned \<longrightarrow> \<not> finished st) \<and>
     (phase st = Returned \<longrightarrow>
        promise st =
          Some (if canvas_context p \<and> \<not> draw_fault v
                then Some (encode_jpeg p (fst (surface v)) (snd (surface v)) url)
                else None))"

text \<open>The state of the two generators after the signals \<open>sigs\<close>.\<close>

definition makeVideoThumbFromUrl :: "platform \<Rightarrow> video \<Rightarrow> string \<Rightarrow> signal list \<Rightarrow> pipeline" where
  "makeVideoThumbFromUrl p v url sigs = thumb_run True 1500 p v url sigs"

definition makeVideoThumbnailFromUrl ::
  "platform \<Rightarrow> video \<Rightarrow> string \<Rightarrow> signal list \<Rightarrow> pipeline" where
  "makeVideoThumbnailFromUrl p v videoUrl sigs = thumb_run False 500 p v videoUrl sigs"

section \<open>Object URLs\<close>

text \<open>\<open>URL.createObjectURL\<close> gives a URL that was not given before; the \<open>n\<close>-th one is
  written \<open>blob:\<close> followed by \<open>n\<close> marks.\<close>

definition objectURL :: "nat \<Rightarrow> string" where
  "objectURL n = ''blob:'' @ replicate n (CHR ''i'')"

definition createObjectURL :: "world \<Rightarrow> string \<times> world" where
  "createObjectURL w =
     (let u = objectURL (minted w)
      in (u, w\<lparr>minted := Suc (minted w), trace := trace w @ [CreatedObjectURL u]\<rparr>))"

definition revokeObjectURL :: "string \<Rightarrow> world \<Rightarrow> world" where
  "revokeObjectURL u w = w\<lparr>trace := trace w @ [RevokedObjectURL u]\<rparr>"

definition releases :: "string \<Rightarrow> world \<Rightarrow> nat" where
  "releases u w = count_list (trace w) (RevokedObjectURL u)"

section \<open>Media reference resolver (\<open>useResolvedMediaUrl\<close>)\<close>

text \<open>
  One run of the hook's effect: the variables \<open>active\<close> and \<open>objectUrl\<close> of its closure, and
  the key whose \<open>getMedia\<close> the function \<open>run\<close> is suspended on (\<open>None\<close> when \<open>run\<close> is
  not suspended). The state \<open>url\<close> of the hook is threaded beside the world.
\<close>

record resolver =
  active :: bool
  objectUrl :: "string option"
  awaiting :: "string option"

text \<open>The effect body: \<open>run()\<close> up to its \<open>await\<close>.\<close>

definition resolver_start ::
  "string option \<Rightarrow> string option \<Rightarrow> resolver \<times> string option" where
  "resolver_start uri url =
     (case uri of
        None \<Rightarrow> (\<lparr> active = True, objectUrl = None, awaiting = None \<rparr>, None)
      | Some m \<Rightarrow>
          if m = [] then (\<lparr> active = True, objectUrl = None, awaiting = None \<rparr>, None)
          else if \<not> isIdbUri m
            then (\<lparr> active = True, objectUrl = None, awaiting = None \<rparr>, Some m)
          else (\<lparr> active = True, objectUrl = None, awaiting = Some (drop 4 m) \<rparr>, url))"

text \<open>\<open>run()\<close> from the completion of \<open>getMedia\<close> on. \<open>Inl\<close> is the rejection of the promise
  of \<open>run()\<close>, which nothing handles.\<close>

definition resolver_settle ::
  "platform \<Rightarrow> resolver \<Rightarrow> string option \<Rightarrow> world
     \<Rightarrow> unit result \<times> resolver \<times> string option \<times> world" where
  "resolver_settle p r url w =
     (case awaiting r of
        None \<Rightarrow> (Inr (), r, url, w)
      | Some key \<Rightarrow>
          (case getMedia p key w of
             Inl e \<Rightarrow> (Inl e, r\<lparr>awaiting := None\<rparr>, url, w)
           | Inr found \<Rightarrow>
               if \<not> active r then (Inr (), r\<lparr>awaiting := None\<rparr>, url, w)
               else (case found of
                       None \<Rightarrow>
                         (Inr (), r\<lparr>awaiting := None\<rparr>, None,
                          warn ''[useResolvedMediaUrl] blob not found in IDB for key:'' w)
                     | Some b \<Rightarrow>
                         (let (u, w1) = createObjectURL w
                          in (Inr (), r\<lparr>awaiting := None, objectUrl := Some u\<rparr>, Some u, w1)))))"

text \<open>The clean-up function of the effect.\<close>

definition resolver_cleanup :: "resolver \<Rightarrow> world \<Rightarrow> resolver \<times> world" where
  "resolver_cleanup r w =
     (let r1 = r\<lparr>active := False\<rparr>
      in case objectUrl r1 of
           None \<Rightarrow> (r1, w)
         | Some u \<Rightarrow> if u = [] then (r1, w) else (r1, revokeObjectURL u w))"

section \<open>Video thumbnail component (\<open>VideoThumb\<close>)\<close>

definition FALLBACK_MIME_TYPES :: "string list" where
  "FALLBACK_MIME_TYPES =
     [''video/webm;codecs=vp9'', ''video/webm;codecs=vp8'', ''video/webm'', ''video/mp4'']"

text \<open>\<open>resolveVideoUrl\<close>: the pair is \<open>url\<close> and \<open>owned\<close>.\<close>

definition resolveVideoUrl ::
  "platform \<Rightarrow> string \<Rightarrow> world \<Rightarrow> ((string \<times> bool) option) result \<times> world" where
  "resolveVideoUrl p uri w =
     (if isIdbUri uri then
        (let key = drop 4 uri in
         case getMedia p key w of
           Inl e \<Rightarrow> (Inl e, w)
         | Inr None \<Rightarrow> (Inr None, warn ''[VideoThumb] blob not found in IDB for key:'' w)
         | Inr (Some b) \<Rightarrow>
             (let (finalBlob, w1) =
                (if blob_type b = []
                 then (b\<lparr>blob_type := hd FALLBACK_MIME_TYPES\<rparr>,
                       warn ''[VideoThumb] blob has no MIME type'' w)
                 else (b, w));
                  (u, w2) = createObjectURL w1
              in (Inr (Some (u, True)), w2)))
      else if startsWith uri ''data:'' then (Inr (Some (uri, False)), w)
      else if startsWith uri ''blob:''
        then (Inr None, warn ''[VideoThumb] stale blob: URI'' w)
      else (Inr None, warn ''[VideoThumb] unrecognized mediaUri format:'' w))"

text \<open>
  The component's state \<open>thumb\<close> and \<open>busy\<close> and its ref \<open>objectUrlRef\<close>, which every run of
  the effect shares; and one run of the effect: the entry of its closure, the variable
  \<open>cancelled\<close>, and where \<open>run()\<close> is suspended.
\<close>

record thumb_view =
  thumb :: "string option"
  busy :: bool
  objectUrlRef :: "string option"

datatype stage = Resolving | Generating string | Ended

record thumb_effect =
  eff_entry :: Entry
  cancelled :: bool
  stage :: stage

text \<open>The effect body: \<open>run()\<close> up to \<open>await resolveVideoUrl\<close>.\<close>

definition thumb_effect_start :: "Entry \<Rightarrow> thumb_view \<Rightarrow> thumb_effect \<times> thumb_view" where
  "thumb_effect_start entry view =
     (if truthy (thumb view)
        then (\<lparr> eff_entry = entry, cancelled = False, stage = Ended \<rparr>, view)
      else if mediaType entry \<noteq> Video
        then (\<lparr> eff_entry = entry, cancelled = False, stage = Ended \<rparr>, view)
      else (\<lparr> eff_entry = entry, cancelled = False, stage = Resolving \<rparr>, view\<lparr>busy := True\<rparr>))"

text \<open>The \<open>finally\<close> block of \<open>run()\<close>.\<close>

definition run_finally :: "thumb_effect \<Rightarrow> thumb_view \<Rightarrow> thumb_view" where
  "run_finally eff view = (if \<not> cancelled eff then view\<lparr>busy := False\<rparr> else view)"

text \<open>\<open>run()\<close> from the completion of \<open>resolveVideoUrl\<close> up to
  \<open>await makeVideoThumbFromUrl\<close>.\<close>

definition thumb_effect_resolved ::
  "platform \<Rightarrow> thumb_effect \<Rightarrow> thumb_view \<Rightarrow> world
     \<Rightarrow> unit result \<times> thumb_effect \<times> thumb_view \<times> world" where
  "thumb_effect_resolved p eff view w =
     (case stage eff of
        Resolving \<Rightarrow>
          (case resolveVideoUrl p (mediaUri (eff_entry eff)) w of
             (Inl e, w1) \<Rightarrow> (Inl e, eff\<lparr>stage := Ended\<rparr>, run_finally eff view, w1)
           | (Inr None, w1) \<Rightarrow> (Inr (), eff\<lparr>stage := Ended\<rparr>, run_finally eff view, w1)
           | (Inr (Some (u, owned)), w1) \<Rightarrow>
               (Inr (), eff\<lparr>stage := Generating u\<rparr>,
                (if owned then view\<lparr>objectUrlRef := Some u\<rparr> else view), w1))
      | _ \<Rightarrow> (Inr (), eff, view, w))"

text \<open>\<open>run()\<close> from the completion of \<open>makeVideoThumbFromUrl\<close>, which resolved with \<open>t\<close>.\<close>

definition thumb_effect_generated ::
  "platform \<Rightarrow> string option \<Rightarrow> thumb_effect \<Rightarrow> thumb_view \<Rightarrow> world
     \<Rightarrow> unit result \<times> thumb_effect \<times> thumb_view \<times> world" where
  "thumb_effect_generated p t eff view w =
     (case stage eff of
        Generating _ \<Rightarrow>
          if cancelled eff then (Inr (), eff\<lparr>stage := Ended\<rparr>, run_finally eff view, w)
          else (case (if truthy t then t else None) of
                  Some data \<Rightarrow>
                    (case writeBackThumb p (entry_id (eff_entry eff)) data w of
                       (Inl e, w1) \<Rightarrow>
                         (Inl e, eff\<lparr>stage := Ended\<rparr>,
                          run_finally eff (view\<lparr>thumb := Some data\<rparr>), w1)
                     | (Inr _, w1) \<Rightarrow>
                         (Inr (), eff\<lparr>stage := Ended\<rparr>,
                          run_finally eff (view\<lparr>thumb := Some data\<rparr>), w1))
                | None \<Rightarrow>
                    (Inr (), eff\<lparr>stage := Ended\<rparr>, run_finally eff view,
                     warn ''[VideoThumb] thumb generation returned null for entry:'' w))
      | _ \<Rightarrow> (Inr (), eff, view, w))"

text \<open>The clean-up function of the effect.\<close>

definition thumb_effect_cleanup ::
  "thumb_effect \<Rightarrow> thumb_view \<Rightarrow> world \<Rightarrow> thumb_effect \<times> thumb_view \<times> world" where
  "thumb_effect_cleanup eff view w =
     (let eff1 = eff\<lparr>cancelled := True\<rparr>
      in case objectUrlRef view of
           None \<Rightarrow> (eff1, view, w)
         | Some u \<Rightarrow>
             if u = [] then (eff1, view, w)
             else (eff1, view\<lparr>objectUrlRef := None\<rparr>, revokeObjectURL u w))"

section \<open>A concrete browser and index, for evaluation\<close>

definition video_entry :: Entry where
  "video_entry = \<lparr> entry_id = ''v1'', createdAt = ''2024-05-01T10:00:00.000Z'',
                    mediaType = Video, mediaUri = ''idb:v1'', thumbUri = None,
                    textBlocks =
                      [\<lparr> block_id = ''n1'', block_createdAt = ''2024-05-01T10:00:00.000Z'',
                         content = ''first'' \<rparr>,
                       \<lparr> block_id = ''n2'', block_createdAt = ''2024-05-02T10:00:00.000Z'',
                         content = ''second'' \<rparr>] \<rparr>"

definition photo_entry :: Entry where
  "photo_entry = \<lparr> entry_id = ''p1'', createdAt = ''2024-05-03T10:00:00.000Z'',
                    mediaType = Photo, mediaUri = ''data:image/jpeg;base64,AAAAAAAAAAAAAAAA'',
                    thumbUri = None, textBlocks = [] \<rparr>"

definition stored_photo_entry :: Entry where
  "stored_photo_entry =
     photo_entry\<lparr> mediaUri := ''idb:p1'', thumbUri := Some ''data:image/jpeg;base64,/9j/'' \<rparr>"

text \<open>A serialiser that keeps the identifier and the media reference of each entry, and a
  parser that knows four texts. Writes longer than 30 characters exceed the quota.\<close>

definition sample_stringify :: "Entry list \<Rightarrow> string" where
  "sample_stringify es = concat (map (\<lambda>e. entry_id e @ ''='' @ mediaUri e @ '';'') es)"

definition sample_parse :: "string \<Rightarrow> parsed option" where
  "sample_parse s =
     (if s = ''[]'' then Some (JsonArray [])
      else if s = ''v1=idb:v1;'' then Some (JsonArray [video_entry])
      else if s = ''p1=idb:p1;v1=idb:v1;'' then Some (JsonArray [stored_photo_entry, video_entry])
      else if s = ''{}'' then Some JsonOther
      else None)"

definition sample_platform :: platform where
  "sample_platform =
     \<lparr> JSON_parse = sample_parse,
       JSON_stringify = sample_stringify,
       getItem_fault = None,
       setItem_fault = (\<lambda>n v. if length v > 30 then Some (DOMException ''QuotaExceededError'')
                               else None),
       idb_get_fault = (\<lambda>key. None),
       idb_put_fault = (\<lambda>key. None),
       fetch_blob = (\<lambda>u. Inr \<lparr> blob_type = ''image/jpeg'', blob_bytes = [255, 216, 255] \<rparr>),
       image_load = (\<lambda>u. Some (1440, 720)),
       canvas_context = True,
       encode_jpeg = (\<lambda>w h src. ''data:image/jpeg;base64,/9j/'') \<rparr>"

text \<open>A browser whose storage is closed to the page: every write throws \<open>SecurityError\<close>.\<close>

definition locked_platform :: platform where
  "locked_platform =
     sample_platform\<lparr> setItem_fault := (\<lambda>n v. Some (DOMException ''SecurityError'')) \<rparr>"

text \<open>A browser with so small a quota that the migrated index overflows too.\<close>

definition cramped_platform :: platform where
  "cramped_platform =
     sample_platform\<lparr> setItem_fault :=
       (\<lambda>n v. if length v > 5 then Some (DOMException ''QuotaExceededError'') else None) \<rparr>"

text \<open>A browser whose media database cannot be read: every lookup rejects.\<close>

definition failing_db_platform :: platform where
  "failing_db_platform =
     sample_platform\<lparr> idb_get_fault := (\<lambda>key. Some (DOMException ''InvalidStateError'')) \<rparr>"

definition empty_world :: world where
  "empty_world = \<lparr> slot = None, media = Map.empty, minted = 0, trace = [] \<rparr>"

definition video_world :: world where
  "video_world =
     \<lparr> slot = Some ''v1=idb:v1;'',
       media = [''v1'' \<mapsto> \<lparr> blob_type = ''video/webm'', blob_bytes = [26, 69, 223, 163] \<rparr>],
       minted = 0, trace = [] \<rparr>"

definition two_world :: world where
  "two_world =
     \<lparr> slot = Some ''p1=idb:p1;v1=idb:v1;'',
       media = [''v1'' \<mapsto> \<lparr> blob_type = ''video/webm'', blob_bytes = [26, 69, 223, 163] \<rparr>,
                ''p1'' \<mapsto> \<lparr> blob_type = ''image/jpeg'', blob_bytes = [255, 216, 255] \<rparr>],
       minted = 0, trace = [] \<rparr>"

definition silent_video :: video where
  "silent_video = \<lparr> v_duration = Seconds 0, videoWidth = 0, videoHeight = 0,
                     create_fault = False, draw_fault = False \<rparr>"

definition clip_video :: video where
  "clip_video = \<lparr> v_duration = Seconds 4, videoWidth = 640, videoHeight = 360,
                   create_fault = False, draw_fault = False \<rparr>"


section \<open>Theorems\<close>

subsection \<open>Reading the index\<close>

text \<open>
  Claim C7. \<open>readTimeline\<close> never fails: it returns a list for every state of the storage
  slot. The list is empty when the slot is absent, when reading the slot throws, when its
  text is not JSON, and when its text is JSON but not an array; when the text is a JSON
  array, the result is that array.
\<close>

theorem readTimeline_never_fails:
  "(slot w = None \<longrightarrow> readTimeline p w = []) \<and>
   (\<forall>e. getItem_fault p = Some e \<longrightarrow> readTimeline p w = []) \<and>
   (\<forall>text. slot w = Some text \<and> JSON_parse p text = None \<longrightarrow> readTimeline p w = []) \<and>
   (\<forall>text. slot w = Some text \<and> JSON_parse p text = Some JsonOther \<longrightarrow> readTimeline p w = []) \<and>
   (\<forall>text list. getItem_fault p = None \<and> slot w = Some text \<and> text \<noteq> [] \<and>
        JSON_parse p text = Some (JsonArray list) \<longrightarrow> readTimeline p w = list)"
  by (auto simp: readTimeline_def readTimeline_try_def getItem_def
           split: option.splits parsed.splits)

theorem readTimeline_never_fails_witness:
  "readTimeline sample_platform empty_world = [] \<and>
   readTimeline (sample_platform\<lparr>getItem_fault := Some (DOMException ''SecurityError'')\<rparr>)
     video_world = [] \<and>
   readTimeline sample_platform (video_world\<lparr>slot := Some ''<html>''\<rparr>) = [] \<and>
   readTimeline sample_platform (video_world\<lparr>slot := Some ''{}''\<rparr>) = [] \<and>
   readTimeline sample_platform video_world = [video_entry]"
proof -
  have absent: "slot empty_world = None"
    by (simp add: empty_world_def)
  have closed: "getItem_fault (sample_platform\<lparr>getItem_fault := Some (DOMException ''SecurityError'')\<rparr>)
                  = Some (DOMException ''SecurityError'')"
    by simp
  have garbage: "slot (video_world\<lparr>slot := Some ''<html>''\<rparr>) = Some ''<html>'' \<and>
                 JSON_parse sample_platform ''<html>'' = None"
    by (simp add: sample_platform_def sample_parse_def)
  have object: "slot (video_world\<lparr>slot := Some ''{}''\<rparr>) = Some ''{}'' \<and>
                JSON_parse sample_platform ''{}'' = Some JsonOther"
    by (simp add: sample_platform_def sample_parse_def)
  have array: "getItem_fault sample_platform = None \<and> slot video_world = Some ''v1=idb:v1;'' \<and>
               ''v1=idb:v1;'' \<noteq> [] \<and>
               JSON_parse sample_platform ''v1=idb:v1;'' = Some (JsonArray [video_entry])"
    by (simp add: sample_platform_def sample_parse_def video_world_def)
  have 1: "readTimeline sample_platform empty_world = []"
    using absent readTimeline_never_fails [of empty_world sample_platform] by simp
  have 2: "readTimeline (sample_platform\<lparr>getItem_fault := Some (DOMException ''SecurityError'')\<rparr>)
             video_world = []"
    using closed readTimeline_never_fails [of video_world
         "sample_platform\<lparr>getItem_fault := Some (DOMException ''SecurityError'')\<rparr>"]
    by simp
  have 3: "readTimeline sample_platform (video_world\<lparr>slot := Some ''<html>''\<rparr>) = []"
    using garbage
      readTimeline_never_fails [of "video_world\<lparr>slot := Some ''<html>''\<rparr>" sample_platform]
    by simp
  have 4: "readTimeline sample_platform (video_world\<lparr>slot := Some ''{}''\<rparr>) = []"
    using object
      readTimeline_never_fails [of "video_world\<lparr>slot := Some ''{}''\<rparr>" sample_platform]
    by simp
  have 5: "readTimeline sample_platform video_world = [video_entry]"
    using array readTimeline_never_fails [of video_world sample_platform] by simp
  show ?thesis
    using 1 2 3 4 5 by simp
qed

subsection \<open>Thumbnail write-back\<close>

lemma writeBackThumb_next_nth:
  "i < length list \<Longrightarrow>
   writeBackThumb_next entryId t list ! i =
     (if entry_id (list ! i) = entryId then (list ! i)\<lparr>thumbUri := Some t\<rparr> else list ! i)"
  by (simp add: writeBackThumb_next_def)

text \<open>
  Claim C9. The thumbnail write-back changes only the \<open>thumbUri\<close> of the entries whose
  identifier matches: the written document has as many entries as the one read, every entry
  with another identifier is the same at the same position, and a matching entry keeps its
  identifier, creation time, media type, media reference and text blocks. A write that
  succeeds stores that document; one that throws leaves the slot as it was.
\<close>

theorem writeBackThumb_frame:
  "let list = readTimeline p w; next = writeBackThumb_next entryId t list in
     length next = length list \<and>
     (\<forall>i < length list.
        entry_id (next ! i) = entry_id (list ! i) \<and>
        createdAt (next ! i) = createdAt (list ! i) \<and>
        mediaType (next ! i) = mediaType (list ! i) \<and>
        mediaUri (next ! i) = mediaUri (list ! i) \<and>
        textBlocks (next ! i) = textBlocks (list ! i) \<and>
        (entry_id (list ! i) = entryId \<longrightarrow> thumbUri (next ! i) = Some t) \<and>
        (entry_id (list ! i) \<noteq> entryId \<longrightarrow> next ! i = list ! i)) \<and>
     (\<forall>w'. writeBackThumb p entryId t w = (Inr (), w') \<longrightarrow>
        slot w' = Some (JSON_stringify p next) \<and> media w' = media w) \<and>
     (\<forall>e w'. writeBackThumb p entryId t w = (Inl e, w') \<longrightarrow>
        slot w' = slot w \<and> media w' = media w)"
proof -
  have frame: "\<forall>i < length (readTimeline p w).
        entry_id (writeBackThumb_next entryId t (readTimeline p w) ! i) = entry_id (readTimeline p w ! i) \<and>
        createdAt (writeBackThumb_next entryId t (readTimeline p w) ! i) = createdAt (readTimeline p w ! i) \<and>
        mediaType (writeBackThumb_next entryId t (readTimeline p w) ! i) = mediaType (readTimeline p w ! i) \<and>
        mediaUri (writeBackThumb_next entryId t (readTimeline p w) ! i) = mediaUri (readTimeline p w ! i) \<and>
        textBlocks (writeBackThumb_next entryId t (readTimeline p w) ! i) = textBlocks (readTimeline p w ! i) \<and>
        (entry_id (readTimeline p w ! i) = entryId \<longrightarrow>
           thumbUri (writeBackThumb_next entryId t (readTimeline p w) ! i) = Some t) \<and>
        (entry_id (readTimeline p w ! i) \<noteq> entryId \<longrightarrow>
           writeBackThumb_next entryId t (readTimeline p w) ! i = readTimeline p w ! i)"
    by (simp add: writeBackThumb_next_nth)
  have len: "length (writeBackThumb_next entryId t (readTimeline p w)) = length (readTimeline p w)"
    by (simp add: writeBackThumb_next_def)
  have ok: "\<forall>w'. writeBackThumb p entryId t w = (Inr (), w') \<longrightarrow>
        slot w' = Some (JSON_stringify p (writeBackThumb_next entryId t (readTimeline p w))) \<and>
        media w' = media w"
    by (auto simp: writeBackThumb_def setItem_def dispatchEvent_def Let_def split: option.splits)
  have ko: "\<forall>e w'. writeBackThumb p entryId t w = (Inl e, w') \<longrightarrow>
        slot w' = slot w \<and> media w' = media w"
    by (auto simp: writeBackThumb_def setItem_def dispatchEvent_def Let_def split: option.splits)
  show ?thesis
    unfolding Let_def using frame len ok ko by blast
qed

lemma two_list: "readTimeline sample_platform two_world = [stored_photo_entry, video_entry]"
  by (simp add: readTimeline_def readTimeline_try_def getItem_def sample_platform_def
        two_world_def sample_parse_def)

theorem writeBackThumb_frame_witness:
  "writeBackThumb_next ''v1'' ''data:image/jpeg;base64,/9j/''
      (readTimeline sample_platform two_world) ! 0 = stored_photo_entry \<and>
   thumbUri (writeBackThumb_next ''v1'' ''data:image/jpeg;base64,/9j/''
      (readTimeline sample_platform two_world) ! 1) = Some ''data:image/jpeg;base64,/9j/'' \<and>
   textBlocks (writeBackThumb_next ''v1'' ''data:image/jpeg;base64,/9j/''
      (readTimeline sample_platform two_world) ! 1) = textBlocks video_entry \<and>
   slot (snd (writeBackThumb sample_platform ''v1'' ''data:image/jpeg;base64,/9j/'' two_world))
     = Some ''p1=idb:p1;v1=idb:v1;''"
proof -
  let ?t = "''data:image/jpeg;base64,/9j/''"
  have ids: "entry_id (readTimeline sample_platform two_world ! 0) \<noteq> ''v1'' \<and>
             entry_id (readTimeline sample_platform two_world ! 1) = ''v1'' \<and>
             length (readTimeline sample_platform two_world) = 2"
    by (simp add: two_list stored_photo_entry_def photo_entry_def video_entry_def)
  have "fst (writeBackThumb sample_platform ''v1'' ?t two_world) = Inr ()"
    by code_simp
  then have run: "\<exists>w'. writeBackThumb sample_platform ''v1'' ?t two_world = (Inr (), w')"
    by (metis prod.collapse)
  have doc: "JSON_stringify sample_platform
               (writeBackThumb_next ''v1'' ?t (readTimeline sample_platform two_world))
             = ''p1=idb:p1;v1=idb:v1;''"
    by code_simp
  from run obtain w' where w': "writeBackThumb sample_platform ''v1'' ?t two_world = (Inr (), w')"
    by blast
  have inst: "let list = readTimeline sample_platform two_world; next = writeBackThumb_next ''v1'' ?t list in
     length next = length list \<and>
     (\<forall>i < length list.
        entry_id (next ! i) = entry_id (list ! i) \<and>
        createdAt (next ! i) = createdAt (list ! i) \<and>
        mediaType (next ! i) = mediaType (list ! i) \<and>
        mediaUri (next ! i) = mediaUri (list ! i) \<and>
        textBlocks (next ! i) = textBlocks (list ! i) \<and>
        (entry_id (list ! i) = ''v1'' \<longrightarrow> thumbUri (next ! i) = Some ?t) \<and>
        (entry_id (list ! i) \<noteq> ''v1'' \<longrightarrow> next ! i = list ! i)) \<and>
     (\<forall>w'. writeBackThumb sample_platform ''v1'' ?t two_world = (Inr (), w') \<longrightarrow>
        slot w' = Some (JSON_stringify sample_platform next) \<and> media w' = media two_world) \<and>
     (\<forall>e w'. writeBackThumb sample_platform ''v1'' ?t two_world = (Inl e, w') \<longrightarrow>
        slot w' = slot two_world \<and> media w' = media two_world)"
    by (rule writeBackThumb_frame)
  have a: "writeBackThumb_next ''v1'' ?t (readTimeline sample_platform two_world) ! 0
            = readTimeline sample_platform two_world ! 0"
    using inst ids unfolding Let_def by (metis zero_less_numeral)
  have b: "thumbUri (writeBackThumb_next ''v1'' ?t (readTimeline sample_platform two_world) ! 1) = Some ?t
         \<and> textBlocks (writeBackThumb_next ''v1'' ?t (readTimeline sample_platform two_world) ! 1)
             = textBlocks (readTimeline sample_platform two_world ! 1)"
    using inst ids unfolding Let_def by (metis one_less_numeral_iff semiring_norm(76))
  have c: "slot w' = Some (JSON_stringify sample_platform
               (writeBackThumb_next ''v1'' ?t (readTimeline sample_platform two_world)))"
    using inst w' unfolding Let_def by blast
  show ?thesis
    using a b c doc w' by (simp add: two_list)
qed

subsection \<open>Saving notes\<close>

lemma trim_Nil_iff: "trim s = [] \<longleftrightarrow> (\<forall>c \<in> set s. is_ws c)"
proof
  assume "trim s = []"
  then have "dropWhile is_ws (rev (dropWhile is_ws s)) = []"
    by (simp add: trim_def)
  then have "\<forall>c \<in> set (dropWhile is_ws s). is_ws c"
    by (simp add: dropWhile_eq_Nil_conv)
  then have "dropWhile is_ws s = []"
    by (metis hd_dropWhile hd_in_set)
  then show "\<forall>c \<in> set s. is_ws c"
    by (simp add: dropWhile_eq_Nil_conv)
next
  assume "\<forall>c \<in> set s. is_ws c"
  then show "trim s = []"
    by (auto simp: trim_def dest: set_dropWhileD)
qed

lemma trim_decomposition:
  "\<exists>pre post. s = pre @ trim s @ post \<and> (\<forall>c \<in> set pre. is_ws c) \<and> (\<forall>c \<in> set post. is_ws c)"
proof -
  let ?m = "dropWhile is_ws s"
  have s: "s = takeWhile is_ws s @ ?m"
    by simp
  have m: "rev ?m = takeWhile is_ws (rev ?m) @ dropWhile is_ws (rev ?m)"
    by simp
  then have "?m = trim s @ rev (takeWhile is_ws (rev ?m))"
    by (metis rev_append rev_rev_ident trim_def)
  with s have "s = takeWhile is_ws s @ trim s @ rev (takeWhile is_ws (rev ?m))"
    by simp
  moreover have "\<forall>c \<in> set (takeWhile is_ws s). is_ws c"
    by (meson set_takeWhileD)
  moreover have "\<forall>c \<in> set (rev (takeWhile is_ws (rev ?m))). is_ws c"
    by (metis set_rev set_takeWhileD)
  ultimately show ?thesis
    by blast
qed

lemma findIndex_Some:
  "findIndex P xs = Some i \<Longrightarrow> i < length xs \<and> P (xs ! i)"
proof (induction xs arbitrary: i)
  case Nil
  then show ?case by simp
next
  case (Cons x xs)
  show ?case
  proof (cases "P x")
    case True
    with Cons.prems show ?thesis by simp
  next
    case False
    with Cons.prems obtain j where j: "findIndex P xs = Some j" "i = Suc j"
      by auto
    with Cons.IH [of j] show ?thesis by simp
  qed
qed

lemma nextTextBlocks_length: "length (nextTextBlocks e c now newId) \<le> 1"
  by (simp add: nextTextBlocks_def split: list.splits)

lemma nextTextBlocks_empty: "nextTextBlocks e [] now newId = []"
  by (simp add: nextTextBlocks_def)

lemma nextTextBlocks_single:
  "c \<noteq> [] \<Longrightarrow>
   \<exists>b. nextTextBlocks e c now newId = [b] \<and> content b = c \<and>
       (case textBlocks e of
          [] \<Rightarrow> block_id b = newId \<and> block_createdAt b = now
        | b0 # rest \<Rightarrow> block_id b = block_id b0 \<and> block_createdAt b = block_createdAt b0)"
  by (simp add: nextTextBlocks_def split: list.splits)

lemma onSaveNotes_found:
  assumes "findIndex (\<lambda>e. entry_id e = entry_id cur) (readTimeline p w) = Some idx"
      and "onSaveNotes p (Some cur) draft now newId w = (Inr r, w')"
  shows "r = Some ((readTimeline p w ! idx)
                \<lparr>textBlocks := nextTextBlocks (readTimeline p w ! idx) (trim draft) now newId\<rparr>)
         \<and> slot w' = Some (JSON_stringify p ((readTimeline p w)[idx :=
              (readTimeline p w ! idx)
                \<lparr>textBlocks := nextTextBlocks (readTimeline p w ! idx) (trim draft) now newId\<rparr>]))"
  using assms
  by (auto simp: onSaveNotes_def Let_def EntryClient_writeTimeline_def setItem_def
        dispatchEvent_def split: option.splits prod.splits sum.splits)

text \<open>
  Claim C10. When \<open>onSaveNotes\<close> finds the entry in the index and the write succeeds, the
  saved entry is the indexed one with new text blocks, at most one of them: none when the
  draft is white space only; otherwise exactly one block, whose content is the trimmed draft,
  with the identifier and creation time of the first block the entry had (later blocks
  are dropped), or a new identifier and the current time when it had none.
\<close>

theorem onSaveNotes_textBlocks:
  assumes found: "findIndex (\<lambda>e. entry_id e = entry_id cur) (readTimeline p w) = Some idx"
      and saved: "onSaveNotes p (Some cur) draft now newId w = (Inr r, w')"
  shows "\<exists>nextEntry.
           r = Some nextEntry \<and> idx < length (readTimeline p w) \<and>
           slot w' = Some (JSON_stringify p ((readTimeline p w)[idx := nextEntry])) \<and>
           nextEntry = (readTimeline p w ! idx)\<lparr>textBlocks := textBlocks nextEntry\<rparr> \<and>
           length (textBlocks nextEntry) \<le> 1 \<and>
           ((\<forall>c \<in> set draft. is_ws c) \<longrightarrow> textBlocks nextEntry = []) \<and>
           ((\<exists>c \<in> set draft. \<not> is_ws c) \<longrightarrow>
              (\<exists>b. textBlocks nextEntry = [b] \<and> content b = trim draft \<and> trim draft \<noteq> [] \<and>
                   (case textBlocks (readTimeline p w ! idx) of
                      [] \<Rightarrow> block_id b = newId \<and> block_createdAt b = now
                    | b0 # rest \<Rightarrow>
                        block_id b = block_id b0 \<and> block_createdAt b = block_createdAt b0)))"
proof -
  let ?old = "readTimeline p w ! idx"
  let ?blocks = "nextTextBlocks ?old (trim draft) now newId"
  let ?next = "?old\<lparr>textBlocks := ?blocks\<rparr>"
  have r: "r = Some ?next"
    and doc: "slot w' = Some (JSON_stringify p ((readTimeline p w)[idx := ?next]))"
    using onSaveNotes_found [OF found saved] by simp_all
  have idx: "idx < length (readTimeline p w)"
    using findIndex_Some [OF found] by simp
  have blocks: "textBlocks ?next = ?blocks"
    by simp
  have same: "?next = ?old\<lparr>textBlocks := textBlocks ?next\<rparr>"
    by simp
  have len: "length (textBlocks ?next) \<le> 1"
    using nextTextBlocks_length by simp
  have blank: "(\<forall>c \<in> set draft. is_ws c) \<longrightarrow> textBlocks ?next = []"
    using trim_Nil_iff [of draft] by (auto simp: nextTextBlocks_empty)
  have nonblank: "(\<exists>c \<in> set draft. \<not> is_ws c) \<longrightarrow>
              (\<exists>b. textBlocks ?next = [b] \<and> content b = trim draft \<and> trim draft \<noteq> [] \<and>
                   (case textBlocks ?old of
                      [] \<Rightarrow> block_id b = newId \<and> block_createdAt b = now
                    | b0 # rest \<Rightarrow>
                        block_id b = block_id b0 \<and> block_createdAt b = block_createdAt b0))"
  proof
    assume "\<exists>c \<in> set draft. \<not> is_ws c"
    then have ne: "trim draft \<noteq> []"
      using trim_Nil_iff [of draft] by blast
    from nextTextBlocks_single [OF ne, of ?old now newId] ne
    show "\<exists>b. textBlocks ?next = [b] \<and> content b = trim draft \<and> trim draft \<noteq> [] \<and>
                   (case textBlocks ?old of
                      [] \<Rightarrow> block_id b = newId \<and> block_createdAt b = now
                    | b0 # rest \<Rightarrow>
                        block_id b = block_id b0 \<and> block_createdAt b = block_createdAt b0)"
      by auto
  qed
  show ?thesis
    using r idx doc same len blank nonblank by blast
qed

theorem onSaveNotes_textBlocks_witness:
  "findIndex (\<lambda>e. entry_id e = entry_id video_entry) (readTimeline sample_platform video_world)
     = Some 0 \<and>
   (\<exists>nextEntry w'.
      onSaveNotes sample_platform (Some video_entry) '' hi  '' ''2024-06-01'' ''n9'' video_world
        = (Inr (Some nextEntry), w') \<and>
      (\<exists>b. textBlocks nextEntry = [b] \<and> content b = ''hi'' \<and> block_id b = ''n1''))"
proof -
  let ?run = "onSaveNotes sample_platform (Some video_entry) '' hi  '' ''2024-06-01'' ''n9'' video_world"
  have list: "readTimeline sample_platform video_world = [video_entry]"
    by (simp add: readTimeline_def readTimeline_try_def getItem_def sample_platform_def
          video_world_def sample_parse_def)
  have found: "findIndex (\<lambda>e. entry_id e = entry_id video_entry)
                 (readTimeline sample_platform video_world) = Some 0"
    by (simp add: list)
  have "\<not> isl (fst ?run)"
    by code_simp
  then obtain r w' where saved: "?run = (Inr r, w')"
    by (metis prod.collapse sum.collapse(2))
  have draft: "\<exists>c \<in> set '' hi  ''. \<not> is_ws c"
    by (simp add: is_ws_def)
  have trimmed: "trim '' hi  '' = ''hi''"
    by code_simp
  from onSaveNotes_textBlocks [OF found saved] obtain nextEntry where
    n: "r = Some nextEntry"
       "(\<exists>c \<in> set '' hi  ''. \<not> is_ws c) \<longrightarrow>
              (\<exists>b. textBlocks nextEntry = [b] \<and> content b = trim '' hi  '' \<and> trim '' hi  '' \<noteq> [] \<and>
                   (case textBlocks (readTimeline sample_platform video_world ! 0) of
                      [] \<Rightarrow> block_id b = ''n9'' \<and> block_createdAt b = ''2024-06-01''
                    | b0 # rest \<Rightarrow>
                        block_id b = block_id b0 \<and> block_createdAt b = block_createdAt b0))"
    by blast
  from n(2) draft obtain b where
    b: "textBlocks nextEntry = [b]" "content b = trim '' hi  ''"
       "(case textBlocks (readTimeline sample_platform video_world ! 0) of
                      [] \<Rightarrow> block_id b = ''n9'' \<and> block_createdAt b = ''2024-06-01''
                    | b0 # rest \<Rightarrow>
                        block_id b = block_id b0 \<and> block_createdAt b = block_createdAt b0)"
    by blast
  have "block_id b = ''n1''"
    using b(3) by (simp add: list video_entry_def)
  with b trimmed have "\<exists>b. textBlocks nextEntry = [b] \<and> content b = ''hi'' \<and> block_id b = ''n1''"
    by simp
  with saved n(1) found show ?thesis
    by blast
qed

subsection \<open>Overflow migration\<close>

lemma migrateEntry_not_inline:
  "\<not> startsWith (mediaUri e) ''data:'' \<Longrightarrow> migrateEntry p e w = (e, w)"
  by (simp add: migrateEntry_def)

lemma migrateTimelineMedia_not_inline:
  "\<forall>e \<in> set entries. \<not> startsWith (mediaUri e) ''data:'' \<Longrightarrow>
   migrateTimelineMedia p entries w = (entries, w)"
  by (induction entries arbitrary: w) (simp_all add: migrateEntry_not_inline)

lemma toIdbUri_not_inline: "\<not> startsWith (toIdbUri key) ''data:''"
  by (simp add: toIdbUri_def IDB_PREFIX_def startsWith_def)

lemma migrateEntry_completed:
  assumes "startsWith (mediaUri e) ''data:'' \<longrightarrow>
             (\<exists>b. fetch_blob p (mediaUri e) = Inr b) \<and> idb_put_fault p (entry_id e) = None"
  shows "\<not> startsWith (mediaUri (fst (migrateEntry p e w))) ''data:''"
proof (cases "startsWith (mediaUri e) ''data:''")
  case False
  then show ?thesis by (simp add: migrateEntry_not_inline)
next
  case True
  with assms obtain b where "fetch_blob p (mediaUri e) = Inr b" "idb_put_fault p (entry_id e) = None"
    by blast
  with True show ?thesis
    by (simp add: migrateEntry_def dataUrlToBlob_def putMedia_def Let_def toIdbUri_not_inline)
qed

lemma migrateTimelineMedia_completed:
  "\<forall>e \<in> set entries. startsWith (mediaUri e) ''data:'' \<longrightarrow>
      (\<exists>b. fetch_blob p (mediaUri e) = Inr b) \<and> idb_put_fault p (entry_id e) = None \<Longrightarrow>
   \<forall>e \<in> set (fst (migrateTimelineMedia p entries w)). \<not> startsWith (mediaUri e) ''data:''"
proof (induction entries arbitrary: w)
  case Nil
  then show ?case by simp
next
  case (Cons e entries)
  obtain e' w1 where step: "migrateEntry p e w = (e', w1)"
    by (cases "migrateEntry p e w")
  obtain rest w2 where tail: "migrateTimelineMedia p entries w1 = (rest, w2)"
    by (cases "migrateTimelineMedia p entries w1")
  have "\<not> startsWith (mediaUri e') ''data:''"
    using migrateEntry_completed [of e p w] Cons.prems step by simp
  moreover have "\<forall>x \<in> set rest. \<not> startsWith (mediaUri x) ''data:''"
    using Cons.IH [of w1] Cons.prems tail by simp
  ultimately show ?case
    by (simp add: step tail)
qed

lemma migrateEntry_attempts: "attempts (snd (migrateEntry p e w)) = attempts w"
  by (simp add: migrateEntry_def dataUrlToBlob_def putMedia_def Let_def attempts_def
        is_setItem_def split: sum.splits option.splits)

lemma migrateTimelineMedia_attempts:
  "attempts (snd (migrateTimelineMedia p entries w)) = attempts w"
proof (induction entries arbitrary: w)
  case Nil
  then show ?case by simp
next
  case (Cons e entries)
  obtain e' w1 where step: "migrateEntry p e w = (e', w1)"
    by (cases "migrateEntry p e w")
  obtain rest w2 where tail: "migrateTimelineMedia p entries w1 = (rest, w2)"
    by (cases "migrateTimelineMedia p entries w1")
  have "attempts w1 = attempts w"
    using migrateEntry_attempts [of p e w] step by simp
  moreover have "attempts w2 = attempts w1"
    using Cons.IH [of w1] tail by simp
  ultimately show ?case
    by (simp add: step tail)
qed

lemma setItem_attempts: "attempts (snd (setItem p v w)) = Suc (attempts w)"
  by (simp add: setItem_def attempts_def is_setItem_def split: option.splits)

lemma setItem_media: "media (snd (setItem p v w)) = media w"
  by (simp add: setItem_def split: option.splits)

lemma setItem_result:
  "fst (setItem p v w) = (case setItem_fault p (attempts w) v of Some e \<Rightarrow> Inl e | None \<Rightarrow> Inr ())"
  by (simp add: setItem_def split: option.splits)

text \<open>
  Claim C6. The overflow migration of an index in which no entry's media reference is
  inline (none starts with \<open>data:\<close>) returns the entries as they are and changes nothing
  else. When every inline entry migrates (its payload decodes and is stored), no entry of
  the result is inline, so that a second run returns the result of the first as it is.
\<close>

theorem migrateTimelineMedia_idempotent:
  "((\<forall>e \<in> set entries. \<not> startsWith (mediaUri e) ''data:'') \<longrightarrow>
      migrateTimelineMedia p entries w = (entries, w)) \<and>
   ((\<forall>e \<in> set entries. startsWith (mediaUri e) ''data:'' \<longrightarrow>
        (\<exists>b. fetch_blob p (mediaUri e) = Inr b) \<and> idb_put_fault p (entry_id e) = None) \<longrightarrow>
      (\<forall>e \<in> set (fst (migrateTimelineMedia p entries w)). \<not> startsWith (mediaUri e) ''data:'') \<and>
      migrateTimelineMedia p (fst (migrateTimelineMedia p entries w))
          (snd (migrateTimelineMedia p entries w))
        = migrateTimelineMedia p entries w)"
proof -
  have noop: "(\<forall>e \<in> set entries. \<not> startsWith (mediaUri e) ''data:'') \<longrightarrow>
      migrateTimelineMedia p entries w = (entries, w)"
    by (simp add: migrateTimelineMedia_not_inline)
  have again: "migrateTimelineMedia p (fst (migrateTimelineMedia p entries w))
          (snd (migrateTimelineMedia p entries w))
        = migrateTimelineMedia p entries w"
    if "\<forall>e \<in> set (fst (migrateTimelineMedia p entries w)). \<not> startsWith (mediaUri e) ''data:''"
    using that by (simp add: migrateTimelineMedia_not_inline)
  have complete: "\<forall>e \<in> set (fst (migrateTimelineMedia p entries w)).
                     \<not> startsWith (mediaUri e) ''data:''"
    if "\<forall>e \<in> set entries. startsWith (mediaUri e) ''data:'' \<longrightarrow>
        (\<exists>b. fetch_blob p (mediaUri e) = Inr b) \<and> idb_put_fault p (entry_id e) = None"
    using that by (rule migrateTimelineMedia_completed)
  show ?thesis
    using noop again complete by blast
qed

theorem migrateTimelineMedia_idempotent_witness:
  "migrateTimelineMedia sample_platform [stored_photo_entry, video_entry] two_world
     = ([stored_photo_entry, video_entry], two_world) \<and>
   fst (migrateTimelineMedia sample_platform [photo_entry, video_entry] video_world)
     = [stored_photo_entry, video_entry] \<and>
   migrateTimelineMedia sample_platform
       (fst (migrateTimelineMedia sample_platform [photo_entry, video_entry] video_world))
       (snd (migrateTimelineMedia sample_platform [photo_entry, video_entry] video_world))
     = migrateTimelineMedia sample_platform [photo_entry, video_entry] video_world"
proof -
  have stored: "\<forall>e \<in> set [stored_photo_entry, video_entry]. \<not> startsWith (mediaUri e) ''data:''"
    by (simp add: stored_photo_entry_def photo_entry_def video_entry_def startsWith_def)
  have ok: "\<forall>e \<in> set [photo_entry, video_entry]. startsWith (mediaUri e) ''data:'' \<longrightarrow>
        (\<exists>b. fetch_blob sample_platform (mediaUri e) = Inr b) \<and>
        idb_put_fault sample_platform (entry_id e) = None"
    by (simp add: sample_platform_def)
  have first: "fst (migrateTimelineMedia sample_platform [photo_entry, video_entry] video_world)
     = [stored_photo_entry, video_entry]"
    by (simp add: migrateEntry_def dataUrlToBlob_def putMedia_def makePhotoThumbFromDataUrl_def
          thumbSize_def round_div_def truthy_def toIdbUri_def IDB_PREFIX_def startsWith_def
          sample_platform_def photo_entry_def video_entry_def stored_photo_entry_def)
  have a: "migrateTimelineMedia sample_platform [stored_photo_entry, video_entry] two_world
     = ([stored_photo_entry, video_entry], two_world)"
    using stored
      migrateTimelineMedia_idempotent [of "[stored_photo_entry, video_entry]" sample_platform two_world]
    by blast
  have b: "migrateTimelineMedia sample_platform
       (fst (migrateTimelineMedia sample_platform [photo_entry, video_entry] video_world))
       (snd (migrateTimelineMedia sample_platform [photo_entry, video_entry] video_world))
     = migrateTimelineMedia sample_platform [photo_entry, video_entry] video_world"
    using ok
      migrateTimelineMedia_idempotent [of "[photo_entry, video_entry]" sample_platform video_world]
    by blast
  show ?thesis
    using a first b by (intro conjI)
qed

subsection \<open>Writing the index from the capture page\<close>

text \<open>
  Claim C1. When the first \<open>setItem\<close> of \<open>writeTimeline\<close> throws a quota error, the
  migration runs over all entries and the write is tried once more, with the migrated
  document: that is two attempts in all, and whatever the second attempt throws (a quota
  error too) is what \<open>writeTimeline\<close> throws, with no further migration. When the first
  attempt throws another error, \<open>writeTimeline\<close> throws it at once: one attempt, nothing
  migrated.
\<close>

theorem writeTimeline_overflow_retry:
  assumes first: "setItem_fault p (attempts w) (JSON_stringify p entries) = Some err"
  shows "(isQuotaExceeded err \<longrightarrow>
            (\<exists>migrated w2.
               migrateTimelineMedia p entries
                   (w\<lparr>trace := trace w @ [SetItemThrew (JSON_stringify p entries) err]\<rparr>)
                 = (migrated, w2) \<and>
               writeTimeline p entries w = setItem p (JSON_stringify p migrated) w2 \<and>
               attempts (snd (writeTimeline p entries w)) = attempts w + 2 \<and>
               media (snd (writeTimeline p entries w)) = media w2 \<and>
               fst (writeTimeline p entries w) =
                 (case setItem_fault p (Suc (attempts w)) (JSON_stringify p migrated) of
                    Some err2 \<Rightarrow> Inl err2
                  | None \<Rightarrow> Inr ()))) \<and>
         (\<not> isQuotaExceeded err \<longrightarrow>
            writeTimeline p entries w =
              (Inl err, w\<lparr>trace := trace w @ [SetItemThrew (JSON_stringify p entries) err]\<rparr>))"
proof -
  let ?doc = "JSON_stringify p entries"
  let ?w1 = "w\<lparr>trace := trace w @ [SetItemThrew ?doc err]\<rparr>"
  have threw: "setItem p ?doc w = (Inl err, ?w1)"
    using first by (simp add: setItem_def)
  have w1: "attempts ?w1 = Suc (attempts w)"
    by (simp add: attempts_def is_setItem_def)
  have other: "writeTimeline p entries w = (Inl err, ?w1)" if "\<not> isQuotaExceeded err"
    using that threw by (simp add: writeTimeline_def)
  have quota: "\<exists>migrated w2.
               migrateTimelineMedia p entries ?w1 = (migrated, w2) \<and>
               writeTimeline p entries w = setItem p (JSON_stringify p migrated) w2 \<and>
               attempts (snd (writeTimeline p entries w)) = attempts w + 2 \<and>
               media (snd (writeTimeline p entries w)) = media w2 \<and>
               fst (writeTimeline p entries w) =
                 (case setItem_fault p (Suc (attempts w)) (JSON_stringify p migrated) of
                    Some err2 \<Rightarrow> Inl err2
                  | None \<Rightarrow> Inr ())"
    if q: "isQuotaExceeded err"
  proof -
    obtain migrated w2 where m: "migrateTimelineMedia p entries ?w1 = (migrated, w2)"
      by (cases "migrateTimelineMedia p entries ?w1")
    have w2: "attempts w2 = Suc (attempts w)"
      using migrateTimelineMedia_attempts [of p entries ?w1] m w1 by simp
    have retry: "writeTimeline p entries w = setItem p (JSON_stringify p migrated) w2"
      using q threw m by (simp add: writeTimeline_def)
    have n: "attempts (snd (writeTimeline p entries w)) = attempts w + 2"
      using retry w2 by (simp add: setItem_attempts)
    have md: "media (snd (writeTimeline p entries w)) = media w2"
      using retry by (simp add: setItem_media)
    have res: "fst (writeTimeline p entries w) =
                 (case setItem_fault p (Suc (attempts w)) (JSON_stringify p migrated) of
                    Some err2 \<Rightarrow> Inl err2
                  | None \<Rightarrow> Inr ())"
      using retry w2 by (simp add: setItem_result)
    show ?thesis
      using m retry n md res by blast
  qed
  show ?thesis
    using other quota by blast
qed

theorem writeTimeline_overflow_retry_witness:
  "fst (writeTimeline sample_platform [photo_entry, video_entry] video_world) = Inr () \<and>
   attempts (snd (writeTimeline sample_platform [photo_entry, video_entry] video_world)) = 2 \<and>
   fst (writeTimeline cramped_platform [photo_entry, video_entry] video_world)
     = Inl (DOMException ''QuotaExceededError'') \<and>
   attempts (snd (writeTimeline cramped_platform [photo_entry, video_entry] video_world)) = 2 \<and>
   fst (writeTimeline locked_platform [photo_entry, video_entry] video_world)
     = Inl (DOMException ''SecurityError'') \<and>
   attempts (snd (writeTimeline locked_platform [photo_entry, video_entry] video_world)) = 1 \<and>
   media (snd (writeTimeline locked_platform [photo_entry, video_entry] video_world))
     = media video_world"
proof -
  let ?es = "[photo_entry, video_entry]"
  let ?q = "DOMException ''QuotaExceededError''"
  let ?s = "DOMException ''SecurityError''"
  have zero: "attempts video_world = 0"
    by (simp add: attempts_def video_world_def)
  have q: "isQuotaExceeded ?q" and s: "\<not> isQuotaExceeded ?s"
    by (simp_all add: isQuotaExceeded_def)
  have doc: "30 < length (sample_stringify ?es)"
    by (simp add: sample_stringify_def photo_entry_def video_entry_def)
  have f1: "setItem_fault sample_platform (attempts video_world) (JSON_stringify sample_platform ?es)
              = Some ?q"
    by (simp add: sample_platform_def doc)
  have f2: "setItem_fault cramped_platform (attempts video_world) (JSON_stringify cramped_platform ?es)
              = Some ?q"
    using doc by (simp add: cramped_platform_def sample_platform_def)
  have f3: "setItem_fault locked_platform (attempts video_world) (JSON_stringify locked_platform ?es)
              = Some ?s"
    by (simp add: locked_platform_def)
  have second: "\<And>v. setItem_fault sample_platform (Suc 0) v =
                   (if length v > 30 then Some ?q else None)"
               "\<And>v. setItem_fault cramped_platform (Suc 0) v =
                   (if length v > 5 then Some ?q else None)"
    by (simp_all add: cramped_platform_def sample_platform_def)
  have migrated: "\<And>p w. p = sample_platform \<or> p = cramped_platform \<Longrightarrow>
                   fst (migrateTimelineMedia p ?es w) = [stored_photo_entry, video_entry]"
    by (auto simp: migrateEntry_def dataUrlToBlob_def putMedia_def makePhotoThumbFromDataUrl_def
          thumbSize_def round_div_def truthy_def toIdbUri_def IDB_PREFIX_def startsWith_def
          cramped_platform_def sample_platform_def photo_entry_def video_entry_def
          stored_photo_entry_def)
  have mdoc: "sample_stringify [stored_photo_entry, video_entry] = ''p1=idb:p1;v1=idb:v1;''"
    by (simp add: sample_stringify_def stored_photo_entry_def photo_entry_def video_entry_def)
  have str: "JSON_stringify sample_platform = sample_stringify"
            "JSON_stringify cramped_platform = sample_stringify"
    by (simp_all add: cramped_platform_def sample_platform_def)
  have a: "fst (writeTimeline sample_platform ?es video_world) = Inr () \<and>
           attempts (snd (writeTimeline sample_platform ?es video_world)) = 2"
  proof -
    from writeTimeline_overflow_retry [OF f1] q obtain migrated w2 where
      m: "migrateTimelineMedia sample_platform ?es
            (video_world\<lparr>trace := trace video_world @
               [SetItemThrew (JSON_stringify sample_platform ?es) ?q]\<rparr>) = (migrated, w2)"
      and n: "attempts (snd (writeTimeline sample_platform ?es video_world))
                = attempts video_world + 2"
      and r: "fst (writeTimeline sample_platform ?es video_world) =
                 (case setItem_fault sample_platform (Suc (attempts video_world))
                         (JSON_stringify sample_platform migrated) of
                    Some err2 \<Rightarrow> Inl err2
                  | None \<Rightarrow> Inr ())"
      by blast
    have "migrated = [stored_photo_entry, video_entry]"
      using migrated [of sample_platform] m by (metis fst_conv)
    with n r show ?thesis
      by (simp add: zero second str mdoc)
  qed
  have b: "fst (writeTimeline cramped_platform ?es video_world) = Inl ?q \<and>
           attempts (snd (writeTimeline cramped_platform ?es video_world)) = 2"
  proof -
    from writeTimeline_overflow_retry [OF f2] q obtain migrated w2 where
      m: "migrateTimelineMedia cramped_platform ?es
            (video_world\<lparr>trace := trace video_world @
               [SetItemThrew (JSON_stringify cramped_platform ?es) ?q]\<rparr>) = (migrated, w2)"
      and n: "attempts (snd (writeTimeline cramped_platform ?es video_world))
                = attempts video_world + 2"
      and r: "fst (writeTimeline cramped_platform ?es video_world) =
                 (case setItem_fault cramped_platform (Suc (attempts video_world))
                         (JSON_stringify cramped_platform migrated) of
                    Some err2 \<Rightarrow> Inl err2
                  | None \<Rightarrow> Inr ())"
      by blast
    have "migrated = [stored_photo_entry, video_entry]"
      using migrated [of cramped_platform] m by (metis fst_conv)
    with n r show ?thesis
      by (simp add: zero second str mdoc)
  qed
  have c: "writeTimeline locked_platform ?es video_world =
             (Inl ?s, video_world\<lparr>trace := trace video_world @
                [SetItemThrew (JSON_stringify locked_platform ?es) ?s]\<rparr>)"
    using writeTimeline_overflow_retry [OF f3] s by blast
  have tr: "trace video_world = []"
    by (simp add: video_world_def)
  have c': "attempts (snd (writeTimeline locked_platform ?es video_world)) = 1"
    by (simp add: c attempts_def is_setItem_def tr)
  show ?thesis
    using a b c' by (simp add: c)
qed

subsection \<open>Change notification\<close>










subsection \<open>Resolving a media reference\<close>

lemma isIdbUri_nonempty: "isIdbUri m \<Longrightarrow> m \<noteq> []"
  by (auto simp: isIdbUri_def startsWith_def IDB_PREFIX_def)

text \<open>
  Claim C8, as the code has it. For a reference \<open>idb:key\<close> whose key is not in the blob
  store: when the store answers the lookup, \<open>getMedia\<close> gives \<open>null\<close>, not an error, and
  the resolver, still active when the lookup completes, sets its URL to \<open>null\<close> without
  an exception, mints no object URL, and its one effect on the world is a warning. When
  opening the database or the request fails, \<open>getMedia\<close> rejects with that error and so
  does \<open>run()\<close>, which catches nothing: the URL stays as it was and nothing is warned.
\<close>

theorem resolve_missing_blob:
  assumes idb: "isIdbUri m"
      and missing: "media w (drop 4 m) = None"
  shows "resolver_start (Some m) url0
           = (\<lparr> active = True, objectUrl = None, awaiting = Some (drop 4 m) \<rparr>, url0) \<and>
         (idb_get_fault p (drop 4 m) = None \<longrightarrow>
            getMedia p (drop 4 m) w = Inr None \<and>
            resolver_settle p \<lparr> active = True, objectUrl = None, awaiting = Some (drop 4 m) \<rparr>
                url0 w
              = (Inr (), \<lparr> active = True, objectUrl = None, awaiting = None \<rparr>, None,
                 w\<lparr>trace := trace w @
                    [Warned ''[useResolvedMediaUrl] blob not found in IDB for key:'']\<rparr>)) \<and>
         (\<forall>e. idb_get_fault p (drop 4 m) = Some e \<longrightarrow>
            getMedia p (drop 4 m) w = Inl e \<and>
            resolver_settle p \<lparr> active = True, objectUrl = None, awaiting = Some (drop 4 m) \<rparr>
                url0 w
              = (Inl e, \<lparr> active = True, objectUrl = None, awaiting = None \<rparr>, url0, w))"
proof -
  let ?r = "\<lparr> active = True, objectUrl = None, awaiting = Some (drop 4 m) \<rparr>"
  have ne: "m \<noteq> []"
    using idb by (rule isIdbUri_nonempty)
  have start: "resolver_start (Some m) url0 = (?r, url0)"
    using idb ne by (simp add: resolver_start_def)
  have answered: "getMedia p (drop 4 m) w = Inr None \<and>
      resolver_settle p ?r url0 w
        = (Inr (), \<lparr> active = True, objectUrl = None, awaiting = None \<rparr>, None,
           w\<lparr>trace := trace w @
              [Warned ''[useResolvedMediaUrl] blob not found in IDB for key:'']\<rparr>)"
    if "idb_get_fault p (drop 4 m) = None"
    using that missing by (simp add: getMedia_def resolver_settle_def warn_def)
  have failed: "getMedia p (drop 4 m) w = Inl e \<and>
      resolver_settle p ?r url0 w
        = (Inl e, \<lparr> active = True, objectUrl = None, awaiting = None \<rparr>, url0, w)"
    if "idb_get_fault p (drop 4 m) = Some e" for e
    using that by (simp add: getMedia_def resolver_settle_def)
  show ?thesis
    using start answered failed by blast
qed

theorem resolve_missing_blob_witness:
  "isIdbUri ''idb:missing-key'' \<and> media video_world (drop 4 ''idb:missing-key'') = None \<and>
   getMedia sample_platform ''missing-key'' video_world = Inr None \<and>
   resolver_settle sample_platform
       \<lparr> active = True, objectUrl = None, awaiting = Some ''missing-key'' \<rparr> None video_world
     = (Inr (), \<lparr> active = True, objectUrl = None, awaiting = None \<rparr>, None,
        video_world\<lparr>trace := trace video_world @
           [Warned ''[useResolvedMediaUrl] blob not found in IDB for key:'']\<rparr>) \<and>
   getMedia failing_db_platform ''missing-key'' video_world
     = Inl (DOMException ''InvalidStateError'') \<and>
   resolver_settle failing_db_platform
       \<lparr> active = True, objectUrl = None, awaiting = Some ''missing-key'' \<rparr> None video_world
     = (Inl (DOMException ''InvalidStateError''),
        \<lparr> active = True, objectUrl = None, awaiting = None \<rparr>, None, video_world)"
proof -
  have idb: "isIdbUri ''idb:missing-key''"
    by (simp add: isIdbUri_def startsWith_def IDB_PREFIX_def)
  have missing: "media video_world (drop 4 ''idb:missing-key'') = None"
    by (simp add: video_world_def)
  have answers: "idb_get_fault sample_platform (drop 4 ''idb:missing-key'') = None"
    by (simp add: sample_platform_def)
  have fails: "idb_get_fault failing_db_platform (drop 4 ''idb:missing-key'')
                 = Some (DOMException ''InvalidStateError'')"
    by (simp add: failing_db_platform_def)
  have key: "drop 4 ''idb:missing-key'' = ''missing-key''"
    by simp
  note ok = resolve_missing_blob [OF idb missing, of None sample_platform,
              THEN conjunct2, THEN conjunct1, rule_format, OF answers]
  note ko = resolve_missing_blob [OF idb missing, of None failing_db_platform,
              THEN conjunct2, THEN conjunct2, rule_format, OF fails]
  show ?thesis
    using idb missing ok ko unfolding key by (intro conjI) simp_all
qed

text \<open>Claim C8 as stated fails: with the payload absent and a database that cannot be read,
  \<open>getMedia\<close> gives an error, not \<open>null\<close>, and the resolver's \<open>run()\<close> rejects with it;
  the URL is not set to \<open>null\<close> and nothing is warned.\<close>

theorem resolve_missing_blob_database_failure:
  "isIdbUri ''idb:missing-key'' \<and>
   media video_world ''missing-key'' = None \<and>
   getMedia failing_db_platform ''missing-key'' video_world
     = Inl (DOMException ''InvalidStateError'') \<and>
   fst (resolver_settle failing_db_platform
          (fst (resolver_start (Some ''idb:missing-key'') (Some ''idb:missing-key'')))
          (snd (resolver_start (Some ''idb:missing-key'') (Some ''idb:missing-key'')))
          video_world)
     = Inl (DOMException ''InvalidStateError'') \<and>
   fst (snd (snd (resolver_settle failing_db_platform
          (fst (resolver_start (Some ''idb:missing-key'') (Some ''idb:missing-key'')))
          (snd (resolver_start (Some ''idb:missing-key'') (Some ''idb:missing-key'')))
          video_world)))
     = Some ''idb:missing-key'' \<and>
   trace (snd (snd (snd (resolver_settle failing_db_platform
          (fst (resolver_start (Some ''idb:missing-key'') (Some ''idb:missing-key'')))
          (snd (resolver_start (Some ''idb:missing-key'') (Some ''idb:missing-key'')))
          video_world))))
     = []"
  by (simp add: isIdbUri_def startsWith_def IDB_PREFIX_def resolver_start_def
        resolver_settle_def getMedia_def failing_db_platform_def video_world_def)

subsection \<open>The frame-capture pipeline\<close>

lemma finish_simps [simp]:
  "phase (finish r st) = phase st"
  "error_listener (finish r st) = error_listener st"
  "canvas (finish r st) = canvas st"
  "finished (finish r st) = True"
  "promise (finish r st) = (if finished st then promise st else Some r)"
  by (simp_all add: finish_def)

lemma capture_frame_simps [simp]:
  "phase (capture_frame p v url st) = Returned"
  "error_listener (capture_frame p v url st) = error_listener st"
  "finished (capture_frame p v url st) = True"
  by (simp_all add: capture_frame_def Let_def)

lemma capture_frame_promise:
  "promise (capture_frame p v url st) =
     (if finished st then promise st
      else if canvas_context p \<and> \<not> draw_fault v
        then Some (Some (encode_jpeg p (fst (surface v)) (snd (surface v)) url))
      else Some None)"
  by (simp add: capture_frame_def Let_def surface_def)

lemma capture_frame_canvas: "canvas (capture_frame p v url st) = Some (surface v)"
  by (simp add: capture_frame_def Let_def surface_def)

lemma settled_start: "settled (thumb_start v)"
  by (simp add: settled_def thumb_start_def)

lemma settled_step: "settled st \<Longrightarrow> settled (thumb_step settle ms p v url st sig)"
  by (auto simp: settled_def thumb_step_def after_wait_def on_loadedmetadata_def Let_def
        capture_frame_promise
      split: signal.splits video_event.splits phase.splits if_splits)

lemma settled_run: "settled st \<Longrightarrow> settled (foldl (thumb_step settle ms p v url) st sigs)"
  by (induction sigs arbitrary: st) (simp_all add: settled_step)

lemma remaining_step:
  "remaining settle (thumb_step settle ms p v url st sig) \<le> remaining settle st"
  by (auto simp: remaining_def thumb_step_def after_wait_def on_loadedmetadata_def Let_def
      split: signal.splits video_event.splits phase.splits if_splits)

lemma remaining_run:
  "remaining settle (foldl (thumb_step settle ms p v url) st sigs) \<le> remaining settle st"
proof (induction sigs arbitrary: st)
  case Nil
  then show ?case by simp
next
  case (Cons sig sigs)
  have "remaining settle (foldl (thumb_step settle ms p v url) (thumb_step settle ms p v url st sig) sigs)
          \<le> remaining settle (thumb_step settle ms p v url st sig)"
    by (rule Cons.IH)
  also have "\<dots> \<le> remaining settle st"
    by (rule remaining_step)
  finally show ?case by simp
qed

lemma remaining_metadata:
  "remaining settle (thumb_step settle ms p v url st (Fires EvLoadedMetadata))
     \<le> (if settle then 2 else 1)"
  by (auto simp: remaining_def thumb_step_def after_wait_def on_loadedmetadata_def Let_def
      split: phase.splits if_splits)

lemma remaining_timer:
  "remaining settle st \<le> (if settle then 2 else 1) \<Longrightarrow>
   remaining settle (thumb_step settle ms p v url st TimerExpires) \<le> remaining settle st - 1"
  by (auto simp: remaining_def thumb_step_def after_wait_def Let_def
      split: phase.splits if_splits)

lemma remaining_0: "settled st \<Longrightarrow> remaining settle st = 0 \<Longrightarrow> promise st \<noteq> None"
  by (auto simp: settled_def remaining_def split: phase.splits if_splits)


lemma listener_step:
  "\<not> error_listener st \<Longrightarrow> \<not> error_listener (thumb_step settle ms p v url st sig)"
  by (auto simp: thumb_step_def after_wait_def on_loadedmetadata_def Let_def
      split: signal.splits video_event.splits phase.splits if_splits)

lemma listener_run:
  "\<not> error_listener st \<Longrightarrow> \<not> error_listener (foldl (thumb_step settle ms p v url) st sigs)"
  by (induction sigs arbitrary: st) (simp_all add: listener_step)

lemma listener_error: "\<not> error_listener (thumb_step settle ms p v url st (Fires EvError))"
  by (simp add: thumb_step_def)

lemma run_error:
  assumes "Fires EvError \<in> set sigs" and "settled st"
  shows "promise (foldl (thumb_step settle ms p v url) st sigs) \<noteq> None"
proof -
  from assms(1) obtain pre post where sigs: "sigs = pre @ Fires EvError # post"
    by (meson split_list)
  let ?f = "thumb_step settle ms p v url"
  have "\<not> error_listener (?f (foldl ?f st pre) (Fires EvError))"
    by (rule listener_error)
  then have "\<not> error_listener (foldl ?f st sigs)"
    by (simp add: sigs listener_run)
  moreover have "settled (foldl ?f st sigs)"
    using assms(2) by (rule settled_run)
  ultimately show ?thesis
    by (simp add: settled_def)
qed

lemma run_timer:
  assumes "remaining settle st \<le> k" and "k \<le> (if settle then 2 else 1)"
  shows "remaining settle (foldl (thumb_step settle ms p v url) st (mid @ [TimerExpires])) \<le> k - 1"
proof -
  let ?f = "thumb_step settle ms p v url"
  have m: "remaining settle (foldl ?f st mid) \<le> k"
    using remaining_run [of settle ms p v url st mid] assms(1) by simp
  then have "remaining settle (foldl ?f st mid) \<le> (if settle then 2 else 1)"
    using assms(2) by simp
  then have "remaining settle (?f (foldl ?f st mid) TimerExpires)
               \<le> remaining settle (foldl ?f st mid) - 1"
    by (rule remaining_timer)
  with m show ?thesis by simp
qed

lemma run_metadata:
  "remaining settle (foldl (thumb_step settle ms p v url) st (pre @ [Fires EvLoadedMetadata]))
     \<le> (if settle then 2 else 1)"
  by (simp add: remaining_metadata)

lemma run_resolved:
  assumes "settled st" and "remaining settle (foldl (thumb_step settle ms p v url) st sigs) = 0"
  shows "promise (foldl (thumb_step settle ms p v url) st (sigs @ post)) \<noteq> None"
proof -
  let ?f = "thumb_step settle ms p v url"
  have "remaining settle (foldl ?f st (sigs @ post)) \<le> remaining settle (foldl ?f st sigs)"
    using remaining_run [of settle ms p v url "foldl ?f st sigs" post] by simp
  with assms(2) have "remaining settle (foldl ?f st (sigs @ post)) = 0"
    by simp
  moreover have "settled (foldl ?f st (sigs @ post))"
    using assms(1) by (rule settled_run)
  ultimately show ?thesis
    by (rule remaining_0 [rotated])
qed

lemma run_two_timers:
  "promise (thumb_run True ms p v url
      (pre @ [Fires EvLoadedMetadata] @ mid @ [TimerExpires] @ mid' @ [TimerExpires] @ post)) \<noteq> None"
proof -
  let ?f = "thumb_step True ms p v url"
  let ?s1 = "foldl ?f (thumb_start v) (pre @ [Fires EvLoadedMetadata])"
  let ?s2 = "foldl ?f ?s1 (mid @ [TimerExpires])"
  let ?s3 = "foldl ?f ?s2 (mid' @ [TimerExpires])"
  have 1: "remaining True ?s1 \<le> 2"
    using run_metadata [of True ms p v url "thumb_start v" pre] by simp
  have 2: "remaining True ?s2 \<le> 2 - 1"
    by (rule run_timer [OF 1]) simp
  then have 2: "remaining True ?s2 \<le> 1"
    by simp
  have "remaining True ?s3 \<le> 1 - 1"
    by (rule run_timer [OF 2]) simp
  then have 3: "remaining True ?s3 = 0"
    by simp
  then have "remaining True (foldl ?f (thumb_start v)
              (pre @ [Fires EvLoadedMetadata] @ mid @ [TimerExpires] @ mid' @ [TimerExpires])) = 0"
    by simp
  from run_resolved [OF settled_start this, of post] show ?thesis
    by (simp add: thumb_run_def)
qed

lemma run_one_timer:
  "promise (thumb_run False ms p v url
      (pre @ [Fires EvLoadedMetadata] @ mid @ [TimerExpires] @ post)) \<noteq> None"
proof -
  let ?f = "thumb_step False ms p v url"
  let ?s1 = "foldl ?f (thumb_start v) (pre @ [Fires EvLoadedMetadata])"
  let ?s2 = "foldl ?f ?s1 (mid @ [TimerExpires])"
  have 1: "remaining False ?s1 \<le> 1"
    using run_metadata [of False ms p v url "thumb_start v" pre] by simp
  have "remaining False ?s2 \<le> 1 - 1"
    by (rule run_timer [OF 1]) simp
  then have 2: "remaining False ?s2 = 0"
    by simp
  then have "remaining False (foldl ?f (thumb_start v)
              (pre @ [Fires EvLoadedMetadata] @ mid @ [TimerExpires])) = 0"
    by simp
  from run_resolved [OF settled_start this, of post] show ?thesis
    by (simp add: thumb_run_def)
qed

lemma step_silent:
  "phase st = AwaitingMetadata \<Longrightarrow> sig \<noteq> Fires EvError \<Longrightarrow> sig \<noteq> Fires EvLoadedMetadata \<Longrightarrow>
   thumb_step settle ms p v url st sig = st"
  by (auto simp: thumb_step_def split: signal.splits video_event.splits)

lemma run_silent:
  "phase st = AwaitingMetadata \<Longrightarrow> Fires EvError \<notin> set sigs \<Longrightarrow>
   Fires EvLoadedMetadata \<notin> set sigs \<Longrightarrow>
   foldl (thumb_step settle ms p v url) st sigs = st"
  by (induction sigs) (auto simp: step_silent)

text \<open>
  Claim C2, as the code has it. The waits inside the \<open>loadedmetadata\<close> handler are bounded
  by timers: once the element has fired \<open>loadedmetadata\<close>, the promise is resolved after
  the pending timer has expired twice (\<open>VideoThumb.tsx\<close>: the wait for the frame, then the
  settle delay) or once (\<open>page.tsx\<close>), whatever else the element fires or fails to fire;
  and an \<open>error\<close> event resolves it. The wait for \<open>loadedmetadata\<close> itself has no timer:
  as long as the element fires neither \<open>loadedmetadata\<close> nor \<open>error\<close>, the promise is
  pending and no timer is.
\<close>

theorem thumbnail_waits_bounded:
  "(\<forall>pre mid mid' post.
      sigs = pre @ [Fires EvLoadedMetadata] @ mid @ [TimerExpires] @ mid' @ [TimerExpires] @ post
      \<longrightarrow> promise (makeVideoThumbFromUrl p v url sigs) \<noteq> None) \<and>
   (\<forall>pre mid post.
      sigs = pre @ [Fires EvLoadedMetadata] @ mid @ [TimerExpires] @ post
      \<longrightarrow> promise (makeVideoThumbnailFromUrl p v url sigs) \<noteq> None) \<and>
   (Fires EvError \<in> set sigs \<longrightarrow>
      promise (makeVideoThumbFromUrl p v url sigs) \<noteq> None \<and>
      promise (makeVideoThumbnailFromUrl p v url sigs) \<noteq> None) \<and>
   (\<not> create_fault v \<and> Fires EvError \<notin> set sigs \<and> Fires EvLoadedMetadata \<notin> set sigs \<longrightarrow>
      promise (makeVideoThumbFromUrl p v url sigs) = None \<and>
      \<not> timer_pending (makeVideoThumbFromUrl p v url sigs) \<and>
      promise (makeVideoThumbnailFromUrl p v url sigs) = None \<and>
      \<not> timer_pending (makeVideoThumbnailFromUrl p v url sigs))"
proof -
  have two: "\<forall>pre mid mid' post.
      sigs = pre @ [Fires EvLoadedMetadata] @ mid @ [TimerExpires] @ mid' @ [TimerExpires] @ post
      \<longrightarrow> promise (makeVideoThumbFromUrl p v url sigs) \<noteq> None"
    using run_two_timers [of 1500 p v url] by (simp add: makeVideoThumbFromUrl_def)
  have one: "\<forall>pre mid post.
      sigs = pre @ [Fires EvLoadedMetadata] @ mid @ [TimerExpires] @ post
      \<longrightarrow> promise (makeVideoThumbnailFromUrl p v url sigs) \<noteq> None"
    using run_one_timer [of 500 p v url] by (simp add: makeVideoThumbnailFromUrl_def)
  have err: "promise (makeVideoThumbFromUrl p v url sigs) \<noteq> None \<and>
             promise (makeVideoThumbnailFromUrl p v url sigs) \<noteq> None"
    if "Fires EvError \<in> set sigs"
    using run_error [OF that settled_start]
    by (simp add: makeVideoThumbFromUrl_def makeVideoThumbnailFromUrl_def thumb_run_def)
  have silent: "promise (makeVideoThumbFromUrl p v url sigs) = None \<and>
      \<not> timer_pending (makeVideoThumbFromUrl p v url sigs) \<and>
      promise (makeVideoThumbnailFromUrl p v url sigs) = None \<and>
      \<not> timer_pending (makeVideoThumbnailFromUrl p v url sigs)"
    if "\<not> create_fault v" "Fires EvError \<notin> set sigs" "Fires EvLoadedMetadata \<notin> set sigs"
  proof -
    have start: "phase (thumb_start v) = AwaitingMetadata" "promise (thumb_start v) = None"
      using that(1) by (simp_all add: thumb_start_def)
    have "thumb_run settle ms p v url sigs = thumb_start v" for settle ms
      unfolding thumb_run_def using start(1) that(2,3) by (rule run_silent)
    then show ?thesis
      using start
      by (simp add: makeVideoThumbFromUrl_def makeVideoThumbnailFromUrl_def timer_pending_def)
  qed
  show ?thesis
    using two one err silent by blast
qed

theorem thumbnail_waits_bounded_witness:
  "promise (makeVideoThumbFromUrl sample_platform clip_video ''blob:i''
      [Fires EvLoadedMetadata, TimerExpires, TimerExpires]) \<noteq> None \<and>
   promise (makeVideoThumbnailFromUrl sample_platform clip_video ''blob:i''
      [Fires EvLoadedMetadata, TimerExpires]) \<noteq> None \<and>
   promise (makeVideoThumbFromUrl sample_platform clip_video ''blob:i'' [Fires EvError]) \<noteq> None \<and>
   promise (makeVideoThumbFromUrl sample_platform clip_video ''blob:i''
      [Fires EvSeeked, TimerExpires]) = None"
proof -
  have a: "[Fires EvLoadedMetadata, TimerExpires, TimerExpires]
             = [] @ [Fires EvLoadedMetadata] @ [] @ [TimerExpires] @ [] @ [TimerExpires] @ []"
    by simp
  have b: "[Fires EvLoadedMetadata, TimerExpires]
             = [] @ [Fires EvLoadedMetadata] @ [] @ [TimerExpires] @ []"
    by simp
  have c: "Fires EvError \<in> set [Fires EvError]"
    by simp
  have d: "\<not> create_fault clip_video \<and> Fires EvError \<notin> set [Fires EvSeeked, TimerExpires] \<and>
           Fires EvLoadedMetadata \<notin> set [Fires EvSeeked, TimerExpires]"
    by (simp add: clip_video_def)
  have 1: "promise (makeVideoThumbFromUrl sample_platform clip_video ''blob:i''
      [Fires EvLoadedMetadata, TimerExpires, TimerExpires]) \<noteq> None"
    using a thumbnail_waits_bounded [of "[Fires EvLoadedMetadata, TimerExpires, TimerExpires]"
        sample_platform clip_video "''blob:i''"]
    by blast
  have 2: "promise (makeVideoThumbnailFromUrl sample_platform clip_video ''blob:i''
      [Fires EvLoadedMetadata, TimerExpires]) \<noteq> None"
    using b thumbnail_waits_bounded [of "[Fires EvLoadedMetadata, TimerExpires]"
        sample_platform clip_video "''blob:i''"]
    by blast
  have 3: "promise (makeVideoThumbFromUrl sample_platform clip_video ''blob:i'' [Fires EvError])
             \<noteq> None"
    using c thumbnail_waits_bounded [of "[Fires EvError]" sample_platform clip_video "''blob:i''"]
    by blast
  have 4: "promise (makeVideoThumbFromUrl sample_platform clip_video ''blob:i''
      [Fires EvSeeked, TimerExpires]) = None"
    using d thumbnail_waits_bounded [of "[Fires EvSeeked, TimerExpires]"
        sample_platform clip_video "''blob:i''"]
    by blast
  show ?thesis
    using 1 2 3 4 by (intro conjI)
qed

text \<open>Claim C2 as stated fails: when the element fires nothing, both promises are pending
  and no timer is, so that nothing will resolve them; the events the waits listen to and a
  timer signal change nothing before \<open>loadedmetadata\<close>.\<close>

theorem stalled_metadata_never_resolves:
  "promise (makeVideoThumbFromUrl sample_platform clip_video ''blob:i'' []) = None \<and>
   \<not> timer_pending (makeVideoThumbFromUrl sample_platform clip_video ''blob:i'' []) \<and>
   promise (makeVideoThumbnailFromUrl sample_platform clip_video ''blob:i'' []) = None \<and>
   \<not> timer_pending (makeVideoThumbnailFromUrl sample_platform clip_video ''blob:i'' []) \<and>
   promise (makeVideoThumbFromUrl sample_platform clip_video ''blob:i''
      [Fires EvSeeked, Fires EvLoadedData, TimerExpires]) = None \<and>
   promise (makeVideoThumbnailFromUrl sample_platform clip_video ''blob:i''
      [Fires EvSeeked, Fires EvLoadedData, TimerExpires]) = None"
  by (simp add: makeVideoThumbFromUrl_def makeVideoThumbnailFromUrl_def thumb_run_def
        thumb_start_def thumb_step_def timer_pending_def clip_video_def)

subsection \<open>The surface a frame is drawn on\<close>

lemma framed_start: "framed p v url (thumb_start v)"
  by (simp add: framed_def thumb_start_def)

lemma framed_finish_None: "framed p v url st \<Longrightarrow> framed p v url (finish None st)"
  by (simp add: framed_def finish_def)

lemma framed_capture: "framed p v url st \<Longrightarrow> framed p v url (capture_frame p v url st)"
  by (simp add: framed_def capture_frame_promise capture_frame_canvas)

lemma framed_listener:
  "framed p v url (st\<lparr>error_listener := b\<rparr>) = framed p v url st"
  by (simp add: framed_def)

lemma framed_metadata: "framed p v url st \<Longrightarrow> framed p v url (on_loadedmetadata ms v st)"
  by (simp add: framed_def on_loadedmetadata_def Let_def)

lemma framed_after_wait: "framed p v url st \<Longrightarrow> framed p v url (after_wait settle p v url st)"
  by (simp add: after_wait_def framed_capture) (simp add: framed_def)

lemma framed_step: "framed p v url st \<Longrightarrow> framed p v url (thumb_step settle ms p v url st sig)"
  by (simp add: thumb_step_def framed_finish_None framed_listener framed_metadata
        framed_after_wait framed_capture
      split: signal.splits video_event.splits phase.splits)

lemma framed_run: "framed p v url st \<Longrightarrow> framed p v url (foldl (thumb_step settle ms p v url) st sigs)"
  by (induction sigs arbitrary: st) (simp_all add: framed_step)

lemma undisturbed_start: "\<not> create_fault v \<Longrightarrow> undisturbed p v url (thumb_start v)"
  by (simp add: undisturbed_def thumb_start_def)

lemma undisturbed_capture:
  "undisturbed p v url st \<Longrightarrow> phase st \<noteq> Returned \<Longrightarrow>
   undisturbed p v url (capture_frame p v url st)"
  by (simp add: undisturbed_def capture_frame_promise)

lemma undisturbed_metadata:
  "undisturbed p v url st \<Longrightarrow> phase st = AwaitingMetadata \<Longrightarrow>
   undisturbed p v url (on_loadedmetadata ms v st)"
  by (simp add: undisturbed_def on_loadedmetadata_def Let_def)

lemma undisturbed_after_wait:
  "undisturbed p v url st \<Longrightarrow> phase st \<noteq> Returned \<Longrightarrow>
   undisturbed p v url (after_wait settle p v url st)"
  by (simp add: after_wait_def undisturbed_capture) (simp add: undisturbed_def)

lemma undisturbed_step:
  "undisturbed p v url st \<Longrightarrow> sig \<noteq> Fires EvError \<Longrightarrow>
   undisturbed p v url (thumb_step settle ms p v url st sig)"
  by (auto simp: thumb_step_def undisturbed_metadata undisturbed_after_wait undisturbed_capture
      split: signal.splits video_event.splits phase.splits)

lemma undisturbed_run:
  "undisturbed p v url st \<Longrightarrow> Fires EvError \<notin> set sigs \<Longrightarrow>
   undisturbed p v url (foldl (thumb_step settle ms p v url) st sigs)"
  by (induction sigs arbitrary: st) (auto simp: undisturbed_step)

lemma thumb_run_surface:
  "(canvas (thumb_run settle ms p v url sigs) = None \<or>
    canvas (thumb_run settle ms p v url sigs) = Some (surface v)) \<and>
   (\<forall>t. promise (thumb_run settle ms p v url sigs) = Some (Some t) \<longrightarrow>
      canvas (thumb_run settle ms p v url sigs) = Some (surface v) \<and>
      t = encode_jpeg p (fst (surface v)) (snd (surface v)) url) \<and>
   (\<not> create_fault v \<and> Fires EvError \<notin> set sigs \<and>
    phase (thumb_run settle ms p v url sigs) = Returned \<and> canvas_context p \<and> \<not> draw_fault v \<longrightarrow>
      promise (thumb_run settle ms p v url sigs)
        = Some (Some (encode_jpeg p (fst (surface v)) (snd (surface v)) url)))"
proof -
  have f: "framed p v url (thumb_run settle ms p v url sigs)"
    unfolding thumb_run_def using framed_start by (rule framed_run)
  have u: "undisturbed p v url (thumb_run settle ms p v url sigs)"
    if "\<not> create_fault v" "Fires EvError \<notin> set sigs"
    unfolding thumb_run_def using undisturbed_start [OF that(1)] that(2) by (rule undisturbed_run)
  have 1: "canvas (thumb_run settle ms p v url sigs) = None \<or>
    canvas (thumb_run settle ms p v url sigs) = Some (surface v)"
    using f by (simp add: framed_def)
  have 2: "\<forall>t. promise (thumb_run settle ms p v url sigs) = Some (Some t) \<longrightarrow>
      canvas (thumb_run settle ms p v url sigs) = Some (surface v) \<and>
      t = encode_jpeg p (fst (surface v)) (snd (surface v)) url"
    using f by (simp add: framed_def)
  have 3: "\<not> create_fault v \<and> Fires EvError \<notin> set sigs \<and>
    phase (thumb_run settle ms p v url sigs) = Returned \<and> canvas_context p \<and> \<not> draw_fault v \<longrightarrow>
      promise (thumb_run settle ms p v url sigs)
        = Some (Some (encode_jpeg p (fst (surface v)) (snd (surface v)) url))"
    using u by (simp add: undisturbed_def)
  show ?thesis
    using 1 2 3 by (intro conjI)
qed

text \<open>
  What the generators do with the size. Whenever a generator creates a canvas, its width is
  the video's width, or 1280 when that is zero, and its height the video's height, or 720
  when that is zero; a thumbnail the promise resolves with is the frame encoded on that
  canvas. So the canvas has the native resolution when both sides are non-zero, and is 1280
  by 720 when both are zero; and a handler that returns after no \<open>error\<close> event, with a 2D
  context and no exception while drawing, resolves with a thumbnail, zero sides included.
\<close>

lemma capture_surface:
  "(canvas (makeVideoThumbFromUrl p v url sigs) = None \<or>
    canvas (makeVideoThumbFromUrl p v url sigs) = Some (surface v)) \<and>
   (canvas (makeVideoThumbnailFromUrl p v url sigs) = None \<or>
    canvas (makeVideoThumbnailFromUrl p v url sigs) = Some (surface v)) \<and>
   (\<forall>t. promise (makeVideoThumbFromUrl p v url sigs) = Some (Some t) \<longrightarrow>
      canvas (makeVideoThumbFromUrl p v url sigs) = Some (surface v) \<and>
      t = encode_jpeg p (fst (surface v)) (snd (surface v)) url) \<and>
   (\<forall>t. promise (makeVideoThumbnailFromUrl p v url sigs) = Some (Some t) \<longrightarrow>
      canvas (makeVideoThumbnailFromUrl p v url sigs) = Some (surface v) \<and>
      t = encode_jpeg p (fst (surface v)) (snd (surface v)) url) \<and>
   (\<not> create_fault v \<and> Fires EvError \<notin> set sigs \<and> canvas_context p \<and> \<not> draw_fault v \<longrightarrow>
      (phase (makeVideoThumbFromUrl p v url sigs) = Returned \<longrightarrow>
         promise (makeVideoThumbFromUrl p v url sigs)
           = Some (Some (encode_jpeg p (fst (surface v)) (snd (surface v)) url))) \<and>
      (phase (makeVideoThumbnailFromUrl p v url sigs) = Returned \<longrightarrow>
         promise (makeVideoThumbnailFromUrl p v url sigs)
           = Some (Some (encode_jpeg p (fst (surface v)) (snd (surface v)) url)))) \<and>
   (0 < videoWidth v \<and> 0 < videoHeight v \<longrightarrow> surface v = (videoWidth v, videoHeight v)) \<and>
   (videoWidth v = 0 \<and> videoHeight v = 0 \<longrightarrow> surface v = (1280, 720))"
proof -
  have native: "0 < videoWidth v \<and> 0 < videoHeight v \<longrightarrow> surface v = (videoWidth v, videoHeight v)"
    by (simp add: surface_def)
  have fallback: "videoWidth v = 0 \<and> videoHeight v = 0 \<longrightarrow> surface v = (1280, 720)"
    by (simp add: surface_def)
  note A = thumb_run_surface [of True 1500 p v url sigs, folded makeVideoThumbFromUrl_def]
  note B = thumb_run_surface [of False 500 p v url sigs, folded makeVideoThumbnailFromUrl_def]
  have c5: "\<not> create_fault v \<and> Fires EvError \<notin> set sigs \<and> canvas_context p \<and> \<not> draw_fault v \<longrightarrow>
      (phase (makeVideoThumbFromUrl p v url sigs) = Returned \<longrightarrow>
         promise (makeVideoThumbFromUrl p v url sigs)
           = Some (Some (encode_jpeg p (fst (surface v)) (snd (surface v)) url))) \<and>
      (phase (makeVideoThumbnailFromUrl p v url sigs) = Returned \<longrightarrow>
         promise (makeVideoThumbnailFromUrl p v url sigs)
           = Some (Some (encode_jpeg p (fst (surface v)) (snd (surface v)) url)))"
    using A [THEN conjunct2, THEN conjunct2] B [THEN conjunct2, THEN conjunct2] by simp
  show ?thesis
    using A [THEN conjunct1] B [THEN conjunct1] A [THEN conjunct2, THEN conjunct1]
      B [THEN conjunct2, THEN conjunct1] c5 native fallback
    by (intro conjI)
qed

lemma capture_surface_example:
  "canvas (makeVideoThumbFromUrl sample_platform clip_video ''blob:i''
      [Fires EvLoadedMetadata, Fires EvSeeked, TimerExpires]) = Some (640, 360) \<and>
   promise (makeVideoThumbnailFromUrl sample_platform silent_video ''blob:i''
      [Fires EvLoadedMetadata, Fires EvLoadedData])
     = Some (Some (encode_jpeg sample_platform 1280 720 ''blob:i''))"
proof -
  let ?a = "makeVideoThumbFromUrl sample_platform clip_video ''blob:i''
      [Fires EvLoadedMetadata, Fires EvSeeked, TimerExpires]"
  let ?b = "makeVideoThumbnailFromUrl sample_platform silent_video ''blob:i''
      [Fires EvLoadedMetadata, Fires EvLoadedData]"
  have pa: "promise ?a = Some (Some ''data:image/jpeg;base64,/9j/'')"
    by (simp add: makeVideoThumbFromUrl_def thumb_run_def thumb_start_def thumb_step_def
          on_loadedmetadata_def seek_target_def after_wait_def capture_frame_def finish_def
          clip_video_def sample_platform_def)
  have dims: "0 < videoWidth clip_video \<and> 0 < videoHeight clip_video"
             "videoWidth clip_video = 640" "videoHeight clip_video = 360"
             "videoWidth silent_video = 0 \<and> videoHeight silent_video = 0"
    by (simp_all add: clip_video_def silent_video_def)
  have quiet: "\<not> create_fault silent_video \<and>
               Fires EvError \<notin> set [Fires EvLoadedMetadata, Fires EvLoadedData] \<and>
               canvas_context sample_platform \<and> \<not> draw_fault silent_video"
    by (simp add: silent_video_def sample_platform_def)
  have pb: "phase ?b = Returned"
    by (simp add: makeVideoThumbnailFromUrl_def thumb_run_def thumb_start_def thumb_step_def
          on_loadedmetadata_def seek_target_def after_wait_def silent_video_def)
  have sa: "surface clip_video = (640, 360)" and sb: "surface silent_video = (1280, 720)"
    by (simp_all add: surface_def clip_video_def silent_video_def)
  note whole = capture_surface [of sample_platform clip_video "''blob:i''"
        "[Fires EvLoadedMetadata, Fires EvSeeked, TimerExpires]"]
  note third = whole [THEN conjunct2, THEN conjunct2, THEN conjunct1, rule_format, OF pa]
  have a: "canvas ?a = Some (640, 360)"
    using third by (simp add: sa)
  note whole' = capture_surface [of sample_platform silent_video "''blob:i''"
        "[Fires EvLoadedMetadata, Fires EvLoadedData]"]
  note fifth = whole' [THEN conjunct2, THEN conjunct2, THEN conjunct2, THEN conjunct2,
                       THEN conjunct1]
  from fifth quiet
  have "(phase (makeVideoThumbFromUrl sample_platform silent_video ''blob:i''
                  [Fires EvLoadedMetadata, Fires EvLoadedData]) = Returned \<longrightarrow>
         promise (makeVideoThumbFromUrl sample_platform silent_video ''blob:i''
                  [Fires EvLoadedMetadata, Fires EvLoadedData])
           = Some (Some (encode_jpeg sample_platform (fst (surface silent_video))
                           (snd (surface silent_video)) ''blob:i''))) \<and>
        (phase ?b = Returned \<longrightarrow>
         promise ?b = Some (Some (encode_jpeg sample_platform (fst (surface silent_video))
                           (snd (surface silent_video)) ''blob:i'')))"
    by (rule mp)
  then have "phase ?b = Returned \<longrightarrow>
         promise ?b = Some (Some (encode_jpeg sample_platform (fst (surface silent_video))
                           (snd (surface silent_video)) ''blob:i''))"
    by (rule conjunct2)
  from this pb
  have "promise ?b = Some (Some (encode_jpeg sample_platform (fst (surface silent_video))
                           (snd (surface silent_video)) ''blob:i''))"
    by (rule mp)
  then have b: "promise ?b = Some (Some (encode_jpeg sample_platform 1280 720 ''blob:i''))"
    by (simp add: sb)
  show ?thesis
    using a b by (intro conjI)
qed

text \<open>The test \<open>!w || !h\<close> that follows the two defaults, and would finish with \<open>null\<close>,
  never holds: \<open>w\<close> and \<open>h\<close> are non-zero whatever the video reports, and the handler
  always goes on to create the canvas.\<close>

lemma zero_side_guard_unreachable:
  "fst (surface v) \<noteq> 0 \<and> snd (surface v) \<noteq> 0 \<and>
   canvas (capture_frame p v url st) = Some (surface v)"
  by (simp add: surface_def capture_frame_canvas)

text \<open>
  Claim C5 on the code: a video source whose reported dimensions are zero should resolve to
  "no thumbnail", a frame being drawn only once the dimensions are non-zero. For a video
  that reports duration 0 and size 0 by 0, both generators replace the sides by 1280 and
  720 before they test them, draw on a 1280 by 720 canvas and resolve with the encoded
  frame, not with \<open>null\<close>.
\<close>

theorem zero_dimensions_yield_thumbnail:
  "promise (makeVideoThumbFromUrl sample_platform silent_video ''blob:i''
      [Fires EvLoadedMetadata, TimerExpires, TimerExpires])
     = Some (Some ''data:image/jpeg;base64,/9j/'') \<and>
   canvas (makeVideoThumbFromUrl sample_platform silent_video ''blob:i''
      [Fires EvLoadedMetadata, TimerExpires, TimerExpires]) = Some (1280, 720) \<and>
   promise (makeVideoThumbnailFromUrl sample_platform silent_video ''blob:i''
      [Fires EvLoadedMetadata, TimerExpires])
     = Some (Some ''data:image/jpeg;base64,/9j/'') \<and>
   canvas (makeVideoThumbnailFromUrl sample_platform silent_video ''blob:i''
      [Fires EvLoadedMetadata, TimerExpires]) = Some (1280, 720)"
  by (simp add: makeVideoThumbFromUrl_def makeVideoThumbnailFromUrl_def thumb_run_def
        thumb_start_def thumb_step_def on_loadedmetadata_def seek_target_def after_wait_def
        capture_frame_def finish_def silent_video_def sample_platform_def)

subsection \<open>Release of object URLs\<close>

text \<open>The resolver hook releases what it mints: when the lookup completes before the
  clean-up, the URL minted is revoked once by the clean-up; when the clean-up comes first,
  the completion mints nothing and publishes nothing.\<close>

lemma resolver_release_discipline:
  assumes "isIdbUri m" and "getMedia p (drop 4 m) w = Inr (Some b)"
  shows "(let (r0, url1) = resolver_start (Some m) url0;
              (res, r1, url2, w1) = resolver_settle p r0 url1 w;
              (r2, w2) = resolver_cleanup r1 w1
          in url2 = Some (objectURL (minted w)) \<and>
             trace w2 = trace w @ [CreatedObjectURL (objectURL (minted w)),
                                   RevokedObjectURL (objectURL (minted w))]) \<and>
         (let (r0, url1) = resolver_start (Some m) url0;
              (r1, w1) = resolver_cleanup r0 w;
              (res, r2, url2, w2) = resolver_settle p r1 url1 w1
          in url2 = url0 \<and> w2 = w \<and> objectUrl r2 = None)"
proof -
  have ne: "m \<noteq> []"
    using assms(1) by (auto simp: isIdbUri_def startsWith_def IDB_PREFIX_def)
  have u: "objectURL (minted w) \<noteq> []"
    by (simp add: objectURL_def)
  show ?thesis
    using assms ne u
    by (simp add: resolver_start_def resolver_settle_def resolver_cleanup_def
          createObjectURL_def revokeObjectURL_def Let_def)
qed

text \<open>
  Claim C3 on the code: \<open>VideoThumb\<close> is unmounted (or its entry changes) while
  \<open>resolveVideoUrl\<close> is still waiting for the blob. The clean-up finds the ref empty and
  revokes nothing; the lookup then completes, \<open>resolveVideoUrl\<close> mints an object URL and
  \<open>run\<close> stores it in the ref without looking at \<open>cancelled\<close>; the thumbnail that arrives
  is discarded. The URL minted is never revoked.
\<close>

theorem VideoThumb_cancelled_run_leaks_url:
  "(let (eff0, view0) = thumb_effect_start video_entry
                          \<lparr> thumb = None, busy = False, objectUrlRef = None \<rparr>;
        (eff1, view1, w1) = thumb_effect_cleanup eff0 view0 video_world;
        (res2, eff2, view2, w2) = thumb_effect_resolved sample_platform eff1 view1 w1;
        (res3, eff3, view3, w3) =
           thumb_effect_generated sample_platform (Some ''data:image/jpeg;base64,/9j/'')
             eff2 view2 w2
    in cancelled eff3 \<and> stage eff3 = Ended \<and>
       trace w3 = [CreatedObjectURL (objectURL 0)] \<and>
       releases (objectURL 0) w3 = 0 \<and>
       thumb view3 = None \<and> slot w3 = slot video_world)"
  by (simp add: thumb_effect_start_def thumb_effect_cleanup_def thumb_effect_resolved_def
        thumb_effect_generated_def resolveVideoUrl_def getMedia_def createObjectURL_def
        run_finally_def releases_def objectURL_def isIdbUri_def startsWith_def IDB_PREFIX_def
        truthy_def video_entry_def video_world_def sample_platform_def Let_def)

end
